theory Spec2Isabelle
  imports Main
begin

section \<open>JavaScript values and the runtime\<close>

text \<open>
  The program is JavaScript: an Express server (\<open>server/server.js\<close>), an AWS Lambda
  handler (\<open>amplify/functions/evaluator/index.js\<close>) and a browser script
  (\<open>public/script.js\<close>). Its data are the values of JSON texts, \<open>undefined\<close> for
  a property that is not there, and the built-in functions an object inherits.

  A thrown exception is the \<open>Inl\<close> of a sum; \<open>error\<close> keeps the three
  properties of an exception that the program reads (\<open>err.message\<close>, \<open>err.code\<close>)
  or that tell exceptions apart (\<open>err.name\<close>). The wording of a message is the
  engine's; the messages below stand for it, and no theorem depends on one.
\<close>

datatype error = JSError (errName: string) (errMessage: string) (errCode: "string option")

definition TypeError :: "string \<Rightarrow> error" where
  "TypeError msg = JSError ''TypeError'' msg None"

definition SyntaxError :: "string \<Rightarrow> error" where
  "SyntaxError msg = JSError ''SyntaxError'' msg None"

text \<open>
  Numbers are IEEE doubles in the runtime. The program never computes with the numbers of a
  reply or of a request: it tests them for truth and prints them. So the type of numbers
  is a parameter \<open>'n\<close>, and the two operations come with the runtime below.
  Strings are lists of code units. The properties of an object are an association list in
  the runtime's enumeration order, with distinct keys.
  \<open>Builtin\<close> is a function or prototype object of the runtime, which a program
  reaches only through an inherited property (\<open>db["constructor"]\<close>); it carries the
  string it converts to.
\<close>

datatype 'n jsval =
    Undefined
  | Null
  | Bool bool
  | Num 'n
  | Str string
  | Arr "'n jsval list"
  | Obj "(string \<times> 'n jsval) list"
  | Builtin string

text \<open>
  What the program calls and does not define: \<open>JSON.parse\<close> (a thrown
  \<open>SyntaxError\<close> is \<open>Inl\<close>), \<open>JSON.stringify(value, null, space)\<close> (with
  \<open>space = 0\<close> for the call with one argument; the program only passes objects and
  truthy values, for which the result is a string), the conversions of a number to a string
  and to a boolean, the lookup of a property that the receiver does not own, along its
  prototype chain (\<open>Undefined\<close> when nothing is inherited), and the assignment
  \<open>o[key] = v\<close>, which gives the receiver after the assignment or throws. Every theorem
  below holds for every runtime.
\<close>

record 'n runtime =
  JSON_parse :: "string \<Rightarrow> error + 'n jsval"
  JSON_stringify :: "'n jsval \<Rightarrow> nat \<Rightarrow> string"
  Number_toString :: "'n \<Rightarrow> string"
  Number_toBoolean :: "'n \<Rightarrow> bool"
  prototype_get :: "'n jsval \<Rightarrow> string \<Rightarrow> 'n jsval"
  property_set :: "'n jsval \<Rightarrow> string \<Rightarrow> 'n jsval \<Rightarrow> error + 'n jsval"

text \<open>\<open>if (v)\<close>, \<open>!v\<close>, \<open>a || b\<close> and \<open>a && b\<close> test \<open>ToBoolean\<close>.\<close>

fun ToBoolean :: "'n runtime \<Rightarrow> 'n jsval \<Rightarrow> bool" where
  "ToBoolean rt Undefined = False"
| "ToBoolean rt Null = False"
| "ToBoolean rt (Bool b) = b"
| "ToBoolean rt (Num n) = Number_toBoolean rt n"
| "ToBoolean rt (Str s) = (s \<noteq> [])"
| "ToBoolean rt (Arr xs) = True"
| "ToBoolean rt (Obj kvs) = True"
| "ToBoolean rt (Builtin b) = True"

text \<open>\<open>a || b\<close> on values: \<open>a\<close> when it is truthy, else \<open>b\<close>.\<close>

definition or_else :: "'n runtime \<Rightarrow> 'n jsval \<Rightarrow> 'n jsval \<Rightarrow> 'n jsval" where
  "or_else rt a b = (if ToBoolean rt a then a else b)"

text \<open>\<open>Array.prototype.join\<close> on an array of strings.\<close>

fun join :: "string \<Rightarrow> string list \<Rightarrow> string" where
  "join sep [] = []"
| "join sep [s] = s"
| "join sep (s # t # ss) = s @ sep @ join sep (t # ss)"

text \<open>
  A template literal \<open>`${v}`\<close> converts \<open>v\<close> with \<open>ToString\<close>. An array converts
  to its elements joined by commas, \<open>null\<close> and \<open>undefined\<close> elements as the empty
  string. A plain object converts to \<open>[object Object]\<close>, unless it owns a property
  \<open>toString\<close>: no value of a JSON text is callable, \<open>Object.prototype.valueOf\<close> returns
  the object itself, and the conversion throws a \<open>TypeError\<close>.
\<close>

fun ToString :: "'n runtime \<Rightarrow> 'n jsval \<Rightarrow> error + string"
  and ToString_elems :: "'n runtime \<Rightarrow> 'n jsval list \<Rightarrow> error + string list" where
  "ToString rt Undefined = Inr ''undefined''"
| "ToString rt Null = Inr ''null''"
| "ToString rt (Bool b) = Inr (if b then ''true'' else ''false'')"
| "ToString rt (Num n) = Inr (Number_toString rt n)"
| "ToString rt (Str s) = Inr s"
| "ToString rt (Arr xs) =
     (case ToString_elems rt xs of Inl e \<Rightarrow> Inl e | Inr ss \<Rightarrow> Inr (join '','' ss))"
| "ToString rt (Obj kvs) =
     (if map_of kvs ''toString'' \<noteq> None
      then Inl (TypeError ''Cannot convert object to primitive value'')
      else Inr ''[object Object]'')"
| "ToString rt (Builtin b) = Inr b"
| "ToString_elems rt [] = Inr []"
| "ToString_elems rt (x # xs) =
     (case (if x = Undefined \<or> x = Null then Inr [] else ToString rt x) of
        Inl e \<Rightarrow> Inl e
      | Inr s \<Rightarrow> (case ToString_elems rt xs of Inl e \<Rightarrow> Inl e | Inr ss \<Rightarrow> Inr (s # ss)))"

text \<open>
  \<open>v.name\<close> for the property names the program writes out (\<open>metric\<close>, \<open>score\<close>,
  \<open>feedback\<close>, \<open>results\<close>, \<open>metrics\<close>, \<open>common_improvements\<close>, \<open>parsed\<close>,
  \<open>raw\<close>, \<open>url\<close>, ...): an object gives its own property; no prototype of the
  language defines one of these names, so every other receiver gives \<open>undefined\<close>
  (\<open>own_prop\<close>). Reading a property of \<open>null\<close> or \<open>undefined\<close> throws
  (\<open>read_prop\<close>), and so does destructuring them.
\<close>

fun own_prop :: "'n jsval \<Rightarrow> string \<Rightarrow> 'n jsval" where
  "own_prop (Obj kvs) k = (case map_of kvs k of Some v \<Rightarrow> v | None \<Rightarrow> Undefined)"
| "own_prop v k = Undefined"

definition nullish :: "'n jsval \<Rightarrow> bool" where
  "nullish v = (v = Undefined \<or> v = Null)"

definition read_prop :: "'n jsval \<Rightarrow> string \<Rightarrow> error + 'n jsval" where
  "read_prop v k =
     (if nullish v then Inl (TypeError (''Cannot read properties of null or undefined: '' @ k))
      else Inr (own_prop v k))"

text \<open>
  \<open>db[key]\<close> with a computed key: the object's own property, else what its prototype
  chain gives (\<open>db["constructor"]\<close> is a function).
\<close>

fun Get :: "'n runtime \<Rightarrow> 'n jsval \<Rightarrow> string \<Rightarrow> error + 'n jsval" where
  "Get rt Undefined k = Inl (TypeError (''Cannot read properties of null or undefined: '' @ k))"
| "Get rt Null k = Inl (TypeError (''Cannot read properties of null or undefined: '' @ k))"
| "Get rt (Obj kvs) k =
     Inr (case map_of kvs k of Some v \<Rightarrow> v | None \<Rightarrow> prototype_get rt (Obj kvs) k)"
| "Get rt v k = Inr (prototype_get rt v k)"

subsection \<open>String methods\<close>

text \<open>
  \<open>text.indexOf(c)\<close> and \<open>text.lastIndexOf(c)\<close> for a search string of one code
  unit, as the program calls them: the first and the last index of \<open>c\<close>, or \<open>-1\<close>.
\<close>

fun indexOf_from :: "string \<Rightarrow> char \<Rightarrow> nat \<Rightarrow> int" where
  "indexOf_from [] c i = - 1"
| "indexOf_from (x # xs) c i = (if x = c then int i else indexOf_from xs c (Suc i))"

definition indexOf :: "string \<Rightarrow> char \<Rightarrow> int" where
  "indexOf s c = indexOf_from s c 0"

fun lastIndexOf_from :: "string \<Rightarrow> char \<Rightarrow> nat \<Rightarrow> int \<Rightarrow> int" where
  "lastIndexOf_from [] c i found = found"
| "lastIndexOf_from (x # xs) c i found =
     lastIndexOf_from xs c (Suc i) (if x = c then int i else found)"

definition lastIndexOf :: "string \<Rightarrow> char \<Rightarrow> int" where
  "lastIndexOf s c = lastIndexOf_from s c 0 (- 1)"

text \<open>
  \<open>s.slice(start, stop)\<close>: a negative index counts from the end, both are clamped to
  the string, and an empty range gives the empty string.
\<close>

definition slice :: "string \<Rightarrow> int \<Rightarrow> int \<Rightarrow> string" where
  "slice s start stop =
     (let len = int (length s);
          from = (if start < 0 then max (len + start) 0 else min start len);
          to = (if stop < 0 then max (len + stop) 0 else min stop len)
      in take (nat (to - from)) (drop (nat from) s))"

text \<open>
  \<open>s.startsWith(p)\<close>: \<open>s\<close> begins with \<open>p\<close>. \<open>s.includes(p)\<close>: \<open>p\<close> occurs
  somewhere in \<open>s\<close>. Both compare code units, so upper and lower case differ.
\<close>

definition startsWith :: "string \<Rightarrow> string \<Rightarrow> bool" where
  "startsWith s p = (take (length p) s = p)"

fun str_includes :: "string \<Rightarrow> string \<Rightarrow> bool" where
  "str_includes [] p = (p = [])"
| "str_includes (x # xs) p = (startsWith (x # xs) p \<or> str_includes xs p)"

section \<open>The response normalizer: \<open>tryParseJSON\<close>\<close>

text \<open>
  \<open>server.js\<close>, lines 95 to 108, and the same function in the Lambda's \<open>index.js\<close>,
  lines 80 to 90. The \<open>catch\<close> of the first parse holds the second attempt; the \<open>catch\<close>
  of the second ignores the exception, and the function returns \<open>null\<close>.
\<close>

definition tryParseJSON :: "'n runtime \<Rightarrow> string \<Rightarrow> error + 'n jsval" where
  "tryParseJSON rt text =
     (case JSON_parse rt text of
        Inr v \<Rightarrow> Inr v
      | Inl err \<Rightarrow>
          (let start = indexOf text CHR ''{'';
               fin = lastIndexOf text CHR ''}''
           in if start \<noteq> - 1 \<and> fin \<noteq> - 1 \<and> fin > start
              then (let substr = slice text start (fin + 1)
                    in case JSON_parse rt substr of Inr v \<Rightarrow> Inr v | Inl e \<Rightarrow> Inr Null)
              else Inr Null))"

section \<open>The prompt builder: \<open>constructPrompt\<close>\<close>

text \<open>
  \<open>details\<close> is the object literal \<open>{ url, videoType, purpose, keyConcepts,
  justifications, goal, title }\<close> that both routes build: seven own properties, each any
  value of the request body (\<open>undefined\<close> when the body has no such field).
\<close>

record 'n details =
  url :: "'n jsval"
  videoType :: "'n jsval"
  purpose :: "'n jsval"
  keyConcepts :: "'n jsval"
  justifications :: "'n jsval"
  goal :: "'n jsval"
  title :: "'n jsval"

text \<open>Sequencing of steps that may throw: the first exception ends the computation.\<close>

definition bindE :: "error + 'a \<Rightarrow> ('a \<Rightarrow> error + 'b) \<Rightarrow> error + 'b" where
  "bindE m f = (case m of Inl e \<Rightarrow> Inl e | Inr x \<Rightarrow> f x)"

text \<open>
  \<open>`${i + 1}`\<close> for an array index \<open>i\<close>: the decimal digits of a natural number.
\<close>

fun decimal :: "nat \<Rightarrow> string" where
  "decimal n =
     (if n < 10 then [''0123456789'' ! n]
      else decimal (n div 10) @ [''0123456789'' ! (n mod 10)])"

declare decimal.simps [simp del]

definition header :: string where
  "header = ''You are an expert reviewer for YouTube educational videos. Evaluate the following video and provide for each requested metric a numeric score from 1 (poor) to 10 (excellent) and a concise actionable feedback section with suggestions.''"

definition instruction :: string where
  "instruction = ''Return a JSON object. For each metric include: { \"metric\": \"<name>\", \"score\": <1-10>, \"feedback\": \"<actionable feedback>\" } and at the end add a field \"common_improvements\" with an array of top 5 cross-metric suggestions. Output only valid JSON.''"

text \<open>The template literal of line 80; its substitutions are converted from left to right.\<close>

definition videoInfo :: "'n runtime \<Rightarrow> 'n details \<Rightarrow> error + string" where
  "videoInfo rt details =
     bindE (ToString rt (url details)) (\<lambda>s_url.
     bindE (ToString rt (or_else rt (title details) (Str ''Unknown Title''))) (\<lambda>s_title.
     bindE (ToString rt (videoType details)) (\<lambda>s_videoType.
     bindE (ToString rt (purpose details)) (\<lambda>s_purpose.
     bindE (ToString rt (keyConcepts details)) (\<lambda>s_keyConcepts.
     bindE (ToString rt (justifications details)) (\<lambda>s_justifications.
     bindE (ToString rt (goal details)) (\<lambda>s_goal.
       Inr (''Video URL: '' @ s_url @
            ''\<newline>Title: '' @ s_title @
            ''\<newline>Video Type: '' @ s_videoType @
            ''\<newline>Purpose: '' @ s_purpose @
            ''\<newline>Key Concepts: '' @ s_keyConcepts @
            ''\<newline>Justifications: '' @ s_justifications @
            ''\<newline>Evaluation Goal: '' @ s_goal))))))))"

text \<open>
  \<open>metricList.map((m, i) => `${i + 1}. ${m}`)\<close>, from index \<open>i\<close> on, and line 82,
  which joins the lines with a newline.
\<close>

fun map_numbered :: "'n runtime \<Rightarrow> nat \<Rightarrow> 'n jsval list \<Rightarrow> error + string list" where
  "map_numbered rt i [] = Inr []"
| "map_numbered rt i (m # ms) =
     bindE (ToString rt m) (\<lambda>s.
     bindE (map_numbered rt (Suc i) ms) (\<lambda>ls.
       Inr ((decimal (i + 1) @ ''. '' @ s) # ls)))"

definition metricsText :: "'n runtime \<Rightarrow> 'n jsval list \<Rightarrow> error + string" where
  "metricsText rt metricList =
     bindE (map_numbered rt 0 metricList) (\<lambda>ls. Inr (join ''\<newline>'' ls))"

definition constructPrompt :: "'n runtime \<Rightarrow> 'n details \<Rightarrow> 'n jsval list \<Rightarrow> error + string" where
  "constructPrompt rt details metricList =
     bindE (videoInfo rt details) (\<lambda>info.
     bindE (metricsText rt metricList) (\<lambda>mtext.
       Inr (join ''\<newline>\<newline>''
              [header, info, ''Metrics to evaluate:'', mtext, instruction])))"

text \<open>The metric catalog of \<open>server.js\<close> (lines 38 to 58) and of \<open>index.js\<close>.\<close>

definition METRICS :: "string list" where
  "METRICS =
     [''Clarity of problem articulation'',
      ''Purpose statement strength'',
      ''Logical flow of explanation'',
      ''Audience understanding level'',
      ''Concept simplification quality'',
      ''Technical accuracy of explanations'',
      ''Confidence in voice delivery'',
      ''Degree of passion conveyed'',
      ''Pacing and speed of narration'',
      ''Structural clarity of content'',
      ''Visual organization without styling'',
      ''Completeness of topic coverage'',
      ''Engagement level of the explanation'',
      ''Reasoning transparency'',
      ''Justification of technical decisions'',
      ''Clarity of transitions between topics'',
      ''Interview-readiness of communication'',
      ''Problem-solving mindset demonstration'',
      ''Career-oriented presentation quality'']"

section \<open>The world outside: files and the generation backend\<close>

text \<open>
  \<open>files\<close> is what \<open>fs.readFile(path, 'utf-8')\<close> gives for each path: the text of the
  file, or the exception it throws (\<open>ENOENT\<close> when there is no file). \<open>write_error\<close>
  is the exception \<open>fs.writeFile\<close> throws for a path, if any. \<open>gemini_calls\<close> is the
  list of prompts \<open>callGemini\<close> was called with, oldest first.
\<close>

record world =
  files :: "string \<Rightarrow> error + string"
  write_error :: "string \<Rightarrow> error option"
  gemini_calls :: "string list"

definition fs_writeFile :: "world \<Rightarrow> string \<Rightarrow> string \<Rightarrow> (error + unit) \<times> world" where
  "fs_writeFile w path data =
     (case write_error w path of
        Some e \<Rightarrow> (Inl e, w)
      | None \<Rightarrow> (Inr (), w\<lparr>files := (files w)(path := Inr data)\<rparr>))"

text \<open>
  \<open>callGemini(prompt)\<close> (\<open>geminiClient.js\<close>) reads the environment, imports modules
  and calls the network. Its contract is all the routes use: the reply text, or an exception
  (no key, a failed request). \<open>backend\<close> is that contract; the call is recorded.
\<close>

definition callGemini ::
  "(string \<Rightarrow> error + string) \<Rightarrow> world \<Rightarrow> string \<Rightarrow> (error + string) \<times> world" where
  "callGemini backend w prompt = (backend prompt, w\<lparr>gemini_calls := gemini_calls w @ [prompt]\<rparr>)"

section \<open>The Express server (\<open>server/server.js\<close>)\<close>

text \<open>The path of the stored file stands for \<open>path.join(__dirname, 'videoDetails.json')\<close>.\<close>

definition VIDEO_DB :: string where
  "VIDEO_DB = ''server/videoDetails.json''"

text \<open>
  Lines 60 to 68. The \<open>catch\<close> covers the read and the parse; an exception whose
  \<open>code\<close> is not \<open>ENOENT\<close> is thrown again.
\<close>

definition readVideoDB :: "'n runtime \<Rightarrow> world \<Rightarrow> error + 'n jsval" where
  "readVideoDB rt w =
     (case bindE (files w VIDEO_DB) (\<lambda>raw. JSON_parse rt raw) of
        Inr db \<Rightarrow> Inr db
      | Inl err \<Rightarrow> if errCode err = Some ''ENOENT'' then Inr (Obj []) else Inl err)"

definition writeVideoDB :: "'n runtime \<Rightarrow> world \<Rightarrow> 'n jsval \<Rightarrow> (error + unit) \<times> world" where
  "writeVideoDB rt w db = fs_writeFile w VIDEO_DB (JSON_stringify rt db 2)"

text \<open>A response: \<open>res.status(status).json(json)\<close>; \<open>res.json\<close> alone has status 200.\<close>

record 'n response =
  status :: nat
  json :: "'n jsval"

definition res_json :: "nat \<Rightarrow> 'n jsval \<Rightarrow> 'n response" where
  "res_json st v = \<lparr>status = st, json = v\<rparr>"

text \<open>\<open>err.message || fallback\<close>, for the \<open>catch\<close> blocks.\<close>

definition message_or :: "error \<Rightarrow> string \<Rightarrow> string" where
  "message_or err fallback = (if errMessage err \<noteq> [] then errMessage err else fallback)"

text \<open>
  Lines 142 and 143 of the single-metric route and lines 170 and 171 of the all-metrics
  route, which are the same statements: the stored title for \<open>url\<close>, or
  \<open>Unknown Title\<close> when the lookup \<open>db[url]\<close> gives a falsy value.
\<close>

definition lookup_title :: "'n runtime \<Rightarrow> world \<Rightarrow> 'n jsval \<Rightarrow> error + 'n jsval" where
  "lookup_title rt w u =
     bindE (readVideoDB rt w) (\<lambda>db.
     bindE (ToString rt u) (\<lambda>key.
     bindE (Get rt db key) (\<lambda>stored.
       Inr (or_else rt stored (Str ''Unknown Title'')))))"

text \<open>
  Lines 150 to 158 of the single-metric route and lines 177 to 182 of the all-metrics
  route, which are the same statements: the reply is normalized, and the response carries
  \<open>parsed\<close> only when it is truthy.
\<close>

definition respond :: "'n runtime \<Rightarrow> string \<Rightarrow> error + 'n response" where
  "respond rt raw =
     bindE (tryParseJSON rt raw) (\<lambda>parsed.
       if ToBoolean rt parsed
       then Inr (res_json 200 (Obj [(''ok'', Bool True), (''raw'', Str raw), (''parsed'', parsed)]))
       else Inr (res_json 200 (Obj [(''ok'', Bool True), (''raw'', Str raw)])))"

text \<open>
  \<open>app.post('/api/evaluate-metric')\<close>, lines 137 to 163: first the body of the \<open>try\<close>,
  then the route with its \<open>catch\<close>. \<open>body\<close> is \<open>req.body\<close>.
\<close>

definition evaluate_metric_try ::
  "'n runtime \<Rightarrow> (string \<Rightarrow> error + string) \<Rightarrow> world \<Rightarrow> 'n jsval \<Rightarrow> (error + 'n response) \<times> world" where
  "evaluate_metric_try rt backend w body =
     (if nullish body then (Inl (TypeError ''Cannot destructure req.body''), w)
      else
        let url = own_prop body ''url'';
            videoType = own_prop body ''videoType'';
            purpose = own_prop body ''purpose'';
            keyConcepts = own_prop body ''keyConcepts'';
            justifications = own_prop body ''justifications'';
            goal = own_prop body ''goal'';
            metric = own_prop body ''metric''
        in if \<not> ToBoolean rt url \<or> \<not> ToBoolean rt metric
           then (Inr (res_json 400 (Obj [(''error'', Str ''Missing url or metric'')])), w)
           else
             case bindE (lookup_title rt w url) (\<lambda>title.
                    let details = \<lparr>url = url, videoType = videoType, purpose = purpose,
                                   keyConcepts = keyConcepts, justifications = justifications,
                                   goal = goal, title = title\<rparr>
                    in constructPrompt rt details [metric]) of
               Inl err \<Rightarrow> (Inl err, w)
             | Inr prompt \<Rightarrow>
                 (case callGemini backend w prompt of
                    (Inl err, w') \<Rightarrow> (Inl err, w')
                  | (Inr raw, w') \<Rightarrow>
                      (respond rt raw, w')))"

definition evaluate_metric ::
  "'n runtime \<Rightarrow> (string \<Rightarrow> error + string) \<Rightarrow> world \<Rightarrow> 'n jsval \<Rightarrow> 'n response \<times> world" where
  "evaluate_metric rt backend w body =
     (case evaluate_metric_try rt backend w body of
        (Inr res, w') \<Rightarrow> (res, w')
      | (Inl err, w') \<Rightarrow>
          (res_json 500 (Obj [(''error'', Str (message_or err ''Evaluation failed''))]), w'))"

text \<open>\<open>app.post('/api/evaluate-all')\<close>, lines 165 to 187.\<close>

definition evaluate_all_try ::
  "'n runtime \<Rightarrow> (string \<Rightarrow> error + string) \<Rightarrow> world \<Rightarrow> 'n jsval \<Rightarrow> (error + 'n response) \<times> world" where
  "evaluate_all_try rt backend w body =
     (if nullish body then (Inl (TypeError ''Cannot destructure req.body''), w)
      else
        let url = own_prop body ''url'';
            videoType = own_prop body ''videoType'';
            purpose = own_prop body ''purpose'';
            keyConcepts = own_prop body ''keyConcepts'';
            justifications = own_prop body ''justifications'';
            goal = own_prop body ''goal''
        in if \<not> ToBoolean rt url
           then (Inr (res_json 400 (Obj [(''error'', Str ''Missing url'')])), w)
           else
             case bindE (lookup_title rt w url) (\<lambda>title.
                    let details = \<lparr>url = url, videoType = videoType, purpose = purpose,
                                   keyConcepts = keyConcepts, justifications = justifications,
                                   goal = goal, title = title\<rparr>
                    in constructPrompt rt details (map Str METRICS)) of
               Inl err \<Rightarrow> (Inl err, w)
             | Inr prompt \<Rightarrow>
                 (case callGemini backend w prompt of
                    (Inl err, w') \<Rightarrow> (Inl err, w')
                  | (Inr raw, w') \<Rightarrow>
                      (respond rt raw, w')))"

definition evaluate_all ::
  "'n runtime \<Rightarrow> (string \<Rightarrow> error + string) \<Rightarrow> world \<Rightarrow> 'n jsval \<Rightarrow> 'n response \<times> world" where
  "evaluate_all rt backend w body =
     (case evaluate_all_try rt backend w body of
        (Inr res, w') \<Rightarrow> (res, w')
      | (Inl err, w') \<Rightarrow>
          (res_json 500 (Obj [(''error'', Str (message_or err ''Evaluation failed''))]), w'))"

text \<open>
  \<open>app.post('/api/video-title')\<close>, lines 123 to 135, the one route that writes the title
  store. The destructuring stands before the \<open>try\<close>: its exception leaves the route
  (\<open>Inl\<close>).
\<close>

definition post_video_title ::
  "'n runtime \<Rightarrow> world \<Rightarrow> 'n jsval \<Rightarrow> (error + 'n response) \<times> world" where
  "post_video_title rt w body =
     (if nullish body then (Inl (TypeError ''Cannot destructure req.body''), w)
      else
        let url = own_prop body ''url'';
            title = own_prop body ''title''
        in if \<not> ToBoolean rt url \<or> \<not> ToBoolean rt title
           then (Inr (res_json 400 (Obj [(''error'', Str ''url and title required'')])), w)
           else
             case bindE (readVideoDB rt w) (\<lambda>db.
                  bindE (ToString rt url) (\<lambda>key. property_set rt db key title)) of
               Inl err \<Rightarrow> (Inr (res_json 500 (Obj [(''error'', Str ''Failed to write video DB'')])), w)
             | Inr db' \<Rightarrow>
                 (case writeVideoDB rt w db' of
                    (Inl err, w') \<Rightarrow>
                      (Inr (res_json 500 (Obj [(''error'', Str ''Failed to write video DB'')])), w')
                  | (Inr u, w') \<Rightarrow>
                      (Inr (res_json 200 (Obj [(''ok'', Bool True), (''url'', url), (''title'', title)])),
                       w')))"

section \<open>The Lambda handler (\<open>amplify/functions/evaluator/index.js\<close>)\<close>

definition VIDEO_DB_BUNDLED :: string where
  "VIDEO_DB_BUNDLED = ''evaluator/videoDetails.json''"

definition VIDEO_DB_TMP :: string where
  "VIDEO_DB_TMP = ''/tmp/videoDetails.json''"

text \<open>Lines 48 to 62: the file under \<open>/tmp\<close> first, then the bundled one, then \<open>{}\<close>.\<close>

definition readVideoDB_lambda :: "'n runtime \<Rightarrow> world \<Rightarrow> 'n jsval" where
  "readVideoDB_lambda rt w =
     (case bindE (files w VIDEO_DB_TMP) (\<lambda>tmp. JSON_parse rt tmp) of
        Inr db \<Rightarrow> db
      | Inl e \<Rightarrow>
          (case bindE (files w VIDEO_DB_BUNDLED) (\<lambda>raw. JSON_parse rt raw) of
             Inr db \<Rightarrow> db
           | Inl err \<Rightarrow> Obj []))"

definition writeVideoDB_lambda :: "'n runtime \<Rightarrow> world \<Rightarrow> 'n jsval \<Rightarrow> (error + unit) \<times> world" where
  "writeVideoDB_lambda rt w db = fs_writeFile w VIDEO_DB_TMP (JSON_stringify rt db 2)"

text \<open>
  \<open>buildResponse(statusCode, body)\<close>, lines 92 to 94, and the object it returns; its
  property \<open>body\<close> is the field \<open>res_body\<close>.
\<close>

record lambda_response =
  statusCode :: nat
  headers :: "(string \<times> string) list"
  res_body :: string

definition buildResponse :: "'n runtime \<Rightarrow> nat \<Rightarrow> 'n jsval \<Rightarrow> lambda_response" where
  "buildResponse rt code b =
     \<lparr>statusCode = code, headers = [(''Content-Type'', ''application/json'')],
      res_body = JSON_stringify rt b 0\<rparr>"

text \<open>
  The event of the API gateway, with the fields the handler reads: each is a string or
  absent (\<open>None\<close>). \<open>ev_http_method\<close> is \<open>event.requestContext?.http?.method\<close>
  and \<open>ev_query_url\<close> is \<open>event.queryStringParameters?.url\<close>.
\<close>

record event =
  ev_path :: "string option"
  ev_httpMethod :: "string option"
  ev_http_method :: "string option"
  ev_query_url :: "string option"
  ev_body :: "string option"

text \<open>\<open>a || b\<close> for a string that may be absent: absent and empty are falsy.\<close>

definition str_or :: "string option \<Rightarrow> string \<Rightarrow> string" where
  "str_or a b = (case a of Some s \<Rightarrow> (if s \<noteq> [] then s else b) | None \<Rightarrow> b)"

text \<open>Lines 122 and 123, and the same statements at lines 135 and 136.\<close>

definition lookup_title_lambda :: "'n runtime \<Rightarrow> world \<Rightarrow> 'n jsval \<Rightarrow> error + 'n jsval" where
  "lookup_title_lambda rt w u =
     bindE (ToString rt u) (\<lambda>key.
     bindE (Get rt (readVideoDB_lambda rt w) key) (\<lambda>stored.
       Inr (or_else rt stored (Str ''Unknown Title''))))"

text \<open>
  Lines 127 and 128, and the same statements at lines 140 and 141: the response always
  carries \<open>parsed\<close>, which is \<open>null\<close> when the reply could not be parsed.
\<close>

definition respond_lambda :: "'n runtime \<Rightarrow> string \<Rightarrow> error + lambda_response" where
  "respond_lambda rt raw =
     bindE (tryParseJSON rt raw) (\<lambda>parsed.
       Inr (buildResponse rt 200
              (Obj [(''ok'', Bool True), (''raw'', Str raw), (''parsed'', parsed)])))"

text \<open>
  The four routes of \<open>handler\<close>, each the body of one \<open>if\<close> inside its \<open>try\<close>:
  \<open>GET /video-title\<close> (lines 102 to 105), \<open>POST /video-title\<close> (lines 109 to
  115), \<open>POST /evaluate-metric\<close> (lines 119 to 128) and \<open>POST /evaluate-all\<close>
  (lines 132 to 141).
\<close>

definition lambda_get_title ::
  "'n runtime \<Rightarrow> world \<Rightarrow> event \<Rightarrow> (error + lambda_response) \<times> world" where
  "lambda_get_title rt w ev =
     (case ev_query_url ev of
        None \<Rightarrow> (Inr (buildResponse rt 400 (Obj [(''error'', Str ''Missing url param'')])), w)
      | Some q \<Rightarrow>
          if q = [] then (Inr (buildResponse rt 400 (Obj [(''error'', Str ''Missing url param'')])), w)
          else
            (bindE (Get rt (readVideoDB_lambda rt w) q) (\<lambda>stored.
               Inr (buildResponse rt 200 (Obj [(''url'', Str q), (''title'', or_else rt stored Null)]))),
             w))"

definition lambda_post_title ::
  "'n runtime \<Rightarrow> world \<Rightarrow> event \<Rightarrow> (error + lambda_response) \<times> world" where
  "lambda_post_title rt w ev =
     (case JSON_parse rt (str_or (ev_body ev) ''{}'') of
        Inl err \<Rightarrow> (Inl err, w)
      | Inr body \<Rightarrow>
          if nullish body then (Inl (TypeError ''Cannot destructure body''), w)
          else
            let url = own_prop body ''url'';
                title = own_prop body ''title''
            in if \<not> ToBoolean rt url \<or> \<not> ToBoolean rt title
               then (Inr (buildResponse rt 400 (Obj [(''error'', Str ''url and title required'')])), w)
               else
                 (case bindE (ToString rt url) (\<lambda>key.
                         property_set rt (readVideoDB_lambda rt w) key title) of
                    Inl err \<Rightarrow> (Inl err, w)
                  | Inr db' \<Rightarrow>
                      (case writeVideoDB_lambda rt w db' of
                         (Inl err, w') \<Rightarrow> (Inl err, w')
                       | (Inr u, w') \<Rightarrow>
                           (Inr (buildResponse rt 200
                              (Obj [(''ok'', Bool True), (''url'', url), (''title'', title)])), w'))))"

definition lambda_evaluate_metric ::
  "'n runtime \<Rightarrow> (string \<Rightarrow> error + string) \<Rightarrow> world \<Rightarrow> event \<Rightarrow>
     (error + lambda_response) \<times> world" where
  "lambda_evaluate_metric rt backend w ev =
     (case JSON_parse rt (str_or (ev_body ev) ''{}'') of
        Inl err \<Rightarrow> (Inl err, w)
      | Inr body \<Rightarrow>
          if nullish body then (Inl (TypeError ''Cannot destructure body''), w)
          else
            let url = own_prop body ''url'';
                videoType = own_prop body ''videoType'';
                purpose = own_prop body ''purpose'';
                keyConcepts = own_prop body ''keyConcepts'';
                justifications = own_prop body ''justifications'';
                goal = own_prop body ''goal'';
                metric = own_prop body ''metric''
            in if \<not> ToBoolean rt url \<or> \<not> ToBoolean rt metric
               then (Inr (buildResponse rt 400 (Obj [(''error'', Str ''Missing url or metric'')])), w)
               else
                 (case bindE (lookup_title_lambda rt w url) (\<lambda>title.
                         let details = \<lparr>url = url, videoType = videoType, purpose = purpose,
                                        keyConcepts = keyConcepts, justifications = justifications,
                                        goal = goal, title = title\<rparr>
                         in constructPrompt rt details [metric]) of
                    Inl err \<Rightarrow> (Inl err, w)
                  | Inr prompt \<Rightarrow>
                      (case callGemini backend w prompt of
                         (Inl err, w') \<Rightarrow> (Inl err, w')
                       | (Inr raw, w') \<Rightarrow> (respond_lambda rt raw, w'))))"

definition lambda_evaluate_all ::
  "'n runtime \<Rightarrow> (string \<Rightarrow> error + string) \<Rightarrow> world \<Rightarrow> event \<Rightarrow>
     (error + lambda_response) \<times> world" where
  "lambda_evaluate_all rt backend w ev =
     (case JSON_parse rt (str_or (ev_body ev) ''{}'') of
        Inl err \<Rightarrow> (Inl err, w)
      | Inr body \<Rightarrow>
          if nullish body then (Inl (TypeError ''Cannot destructure body''), w)
          else
            let url = own_prop body ''url'';
                videoType = own_prop body ''videoType'';
                purpose = own_prop body ''purpose'';
                keyConcepts = own_prop body ''keyConcepts'';
                justifications = own_prop body ''justifications'';
                goal = own_prop body ''goal''
            in if \<not> ToBoolean rt url
               then (Inr (buildResponse rt 400 (Obj [(''error'', Str ''Missing url'')])), w)
               else
                 (case bindE (lookup_title_lambda rt w url) (\<lambda>title.
                         let details = \<lparr>url = url, videoType = videoType, purpose = purpose,
                                        keyConcepts = keyConcepts, justifications = justifications,
                                        goal = goal, title = title\<rparr>
                         in constructPrompt rt details (map Str METRICS)) of
                    Inl err \<Rightarrow> (Inl err, w)
                  | Inr prompt \<Rightarrow>
                      (case callGemini backend w prompt of
                         (Inl err, w') \<Rightarrow> (Inl err, w')
                       | (Inr raw, w') \<Rightarrow> (respond_lambda rt raw, w'))))"

text \<open>The body of the \<open>try\<close> of \<open>handler\<close>, lines 101 to 144: the routing.\<close>

definition handler_try ::
  "'n runtime \<Rightarrow> (string \<Rightarrow> error + string) \<Rightarrow> world \<Rightarrow> event \<Rightarrow> string \<Rightarrow> string \<Rightarrow>
     (error + lambda_response) \<times> world" where
  "handler_try rt backend w ev path method =
     (if startsWith path ''/video-title'' \<and> method = ''GET'' then lambda_get_title rt w ev
      else if startsWith path ''/video-title'' \<and> method = ''POST'' then lambda_post_title rt w ev
      else if startsWith path ''/evaluate-metric'' \<and> method = ''POST''
        then lambda_evaluate_metric rt backend w ev
      else if startsWith path ''/evaluate-all'' \<and> method = ''POST''
        then lambda_evaluate_all rt backend w ev
      else (Inr (buildResponse rt 404 (Obj [(''error'', Str ''Not found'')])), w))"

text \<open>\<open>handler(event)\<close>, lines 96 to 149.\<close>

definition handler ::
  "'n runtime \<Rightarrow> (string \<Rightarrow> error + string) \<Rightarrow> world \<Rightarrow> event \<Rightarrow> lambda_response \<times> world" where
  "handler rt backend w ev =
     (let path = str_or (ev_path ev) ''/'';
          method = str_or (ev_httpMethod ev) (str_or (ev_http_method ev) ''GET'')
      in case handler_try rt backend w ev path method of
           (Inr res, w') \<Rightarrow> (res, w')
         | (Inl err, w') \<Rightarrow>
             (buildResponse rt 500 (Obj [(''error'', Str (message_or err ''Internal error''))]), w'))"

section \<open>The browser script (\<open>public/script.js\<close>)\<close>

text \<open>
  \<open>payload\<close> is what \<open>resp.json()\<close> gave: the value of the JSON text of a response.
  A render function ends by assigning \<open>el.innerHTML\<close> or \<open>el.textContent\<close>; the
  model returns which, with the value assigned, or the exception thrown on the way.
\<close>

datatype 'n dom_write = InnerHTML "'n jsval" | TextContent "'n jsval"

text \<open>
  \<open>x.metric && x.metric.includes(metric)\<close>, as a condition. A string has
  \<open>String.prototype.includes\<close>, an array \<open>Array.prototype.includes\<close>; on any
  other truthy value \<open>includes\<close> is not a function.
\<close>

definition matches_metric :: "'n runtime \<Rightarrow> string \<Rightarrow> 'n jsval \<Rightarrow> error + bool" where
  "matches_metric rt metric x =
     bindE (read_prop x ''metric'') (\<lambda>m.
       if \<not> ToBoolean rt m then Inr False
       else (case m of
               Str s \<Rightarrow> Inr (str_includes s metric)
             | Arr xs \<Rightarrow> Inr (List.member xs (Str metric))
             | _ \<Rightarrow> Inl (TypeError ''x.metric.includes is not a function'')))"

text \<open>\<open>xs.find(x => x.metric && x.metric.includes(metric))\<close> on the elements of an array.\<close>

fun find_metric :: "'n runtime \<Rightarrow> string \<Rightarrow> 'n jsval list \<Rightarrow> error + 'n jsval" where
  "find_metric rt metric [] = Inr Undefined"
| "find_metric rt metric (x # xs) =
     bindE (matches_metric rt metric x) (\<lambda>hit.
       if hit then Inr x else find_metric rt metric xs)"

text \<open>\<open>v.find(...)\<close> on any value: only an array has \<open>find\<close>.\<close>

definition call_find :: "'n runtime \<Rightarrow> string \<Rightarrow> 'n jsval \<Rightarrow> error + 'n jsval" where
  "call_find rt metric v =
     (case v of Arr xs \<Rightarrow> find_metric rt metric xs
              | _ \<Rightarrow> Inl (TypeError ''find is not a function''))"

definition isArray :: "'n jsval \<Rightarrow> bool" where
  "isArray v = (case v of Arr xs \<Rightarrow> True | _ \<Rightarrow> False)"

text \<open>Lines 86 to 94 of \<open>renderMetricResult\<close>: the entry \<open>found\<close> in \<open>p = payload.parsed\<close>.\<close>

definition find_entry :: "'n runtime \<Rightarrow> string \<Rightarrow> 'n jsval \<Rightarrow> error + 'n jsval" where
  "find_entry rt metric p =
     (if isArray p then call_find rt metric p
      else bindE (matches_metric rt metric p) (\<lambda>hit.
        if hit then Inr p
        else bindE (read_prop p ''results'') (\<lambda>results.
          if ToBoolean rt results then call_find rt metric results
          else bindE (read_prop p ''metrics'') (\<lambda>metrics.
            if isArray metrics then call_find rt metric metrics
            else Inr Null))))"

text \<open>\<open>renderMetricResult(metric, payload)\<close>, lines 80 to 104.\<close>

definition renderMetricResult :: "'n runtime \<Rightarrow> string \<Rightarrow> 'n jsval \<Rightarrow> error + 'n dom_write" where
  "renderMetricResult rt metric payload =
     (if \<not> ToBoolean rt payload then Inr (TextContent (Str ''No response''))
      else
        let fallback =
              Inr (TextContent (or_else rt (own_prop payload ''raw'')
                                  (Str (JSON_stringify rt payload 2))))
        in if ToBoolean rt (own_prop payload ''parsed'') then
             bindE (find_entry rt metric (own_prop payload ''parsed'')) (\<lambda>found.
               if ToBoolean rt found then
                 bindE (bindE (read_prop found ''score'') (ToString rt)) (\<lambda>s_score.
                 bindE (bindE (read_prop found ''feedback'') (ToString rt)) (\<lambda>s_feedback.
                   Inr (InnerHTML (Str (''<h3>'' @ metric @ ''</h3>Score: <strong>'' @ s_score @
                          ''</strong>\<newline>\<newline>Feedback:\<newline>'' @ s_feedback)))))
               else fallback)
           else fallback)"

text \<open>
  \<open>Object.values(v)\<close> for a truthy value that is not an array: the property values of
  an object in enumeration order, the code units of a string, nothing for a number or a
  boolean.
\<close>

definition Object_values :: "'n jsval \<Rightarrow> 'n jsval list" where
  "Object_values v =
     (case v of Obj kvs \<Rightarrow> map snd kvs
              | Arr xs \<Rightarrow> xs
              | Str s \<Rightarrow> map (\<lambda>c. Str [c]) s
              | _ \<Rightarrow> [])"

text \<open>The filter of line 134: \<open>v => v && v.metric && v.score\<close>.\<close>

definition result_like :: "'n runtime \<Rightarrow> 'n jsval \<Rightarrow> bool" where
  "result_like rt v =
     (ToBoolean rt v \<and> ToBoolean rt (own_prop v ''metric'') \<and> ToBoolean rt (own_prop v ''score''))"

text \<open>Lines 128 to 135 of \<open>renderAllResults\<close>: \<open>metricsArr\<close>, for a truthy \<open>parsed\<close>.\<close>

definition metricsArr_of :: "'n runtime \<Rightarrow> 'n jsval \<Rightarrow> 'n jsval" where
  "metricsArr_of rt parsed =
     (if isArray parsed then parsed
      else if ToBoolean rt (own_prop parsed ''metrics'') then own_prop parsed ''metrics''
      else if ToBoolean rt (own_prop parsed ''results'') then own_prop parsed ''results''
      else Arr (filter (result_like rt) (Object_values parsed)))"

text \<open>
  \<open>if (v.length)\<close>: an array and a string have a length, an object may own a property
  of that name, a number and a boolean have none.
\<close>

definition length_truthy :: "'n runtime \<Rightarrow> 'n jsval \<Rightarrow> bool" where
  "length_truthy rt v =
     (case v of Arr xs \<Rightarrow> xs \<noteq> []
              | Str s \<Rightarrow> s \<noteq> []
              | Obj kvs \<Rightarrow> ToBoolean rt (own_prop v ''length'')
              | _ \<Rightarrow> False)"

text \<open>The template of line 141 for one entry \<open>m\<close>, and the \<open>forEach\<close> that appends them.\<close>

definition entry_html :: "'n runtime \<Rightarrow> 'n jsval \<Rightarrow> error + string" where
  "entry_html rt m =
     bindE (bindE (read_prop m ''metric'') (ToString rt)) (\<lambda>s_metric.
     bindE (bindE (read_prop m ''score'') (ToString rt)) (\<lambda>s_score.
     bindE (bindE (read_prop m ''feedback'') (ToString rt)) (\<lambda>s_feedback.
       Inr (''<h3>'' @ s_metric @ ''</h3><strong>Score: '' @ s_score @ ''</strong><div>'' @
            s_feedback @ ''</div><hr>''))))"

fun entries_html :: "'n runtime \<Rightarrow> 'n jsval list \<Rightarrow> error + string" where
  "entries_html rt [] = Inr []"
| "entries_html rt (m # ms) =
     bindE (entry_html rt m) (\<lambda>h.
     bindE (entries_html rt ms) (\<lambda>hs. Inr (h @ hs)))"

text \<open>Lines 138 to 144: what the block adds to \<open>html\<close>. Only an array has \<open>forEach\<close>.\<close>

definition scores_html :: "'n runtime \<Rightarrow> 'n jsval \<Rightarrow> error + string" where
  "scores_html rt metricsArr =
     (if length_truthy rt metricsArr then
        (case metricsArr of
           Arr xs \<Rightarrow> bindE (entries_html rt xs) (\<lambda>hs.
                      Inr (''<div class=\"all-scores\">'' @ hs @ ''</div>''))
         | _ \<Rightarrow> Inl (TypeError ''metricsArr.forEach is not a function''))
      else Inr [])"

text \<open>
  Lines 146 to 148: \<open>parsed.common_improvements.map(s => `<li>${s}</li>`).join('')\<close>
  between the heading and the end of the list. Only an array has \<open>map\<close>.
\<close>

fun items_html :: "'n runtime \<Rightarrow> 'n jsval list \<Rightarrow> error + string list" where
  "items_html rt [] = Inr []"
| "items_html rt (x # xs) =
     bindE (ToString rt x) (\<lambda>s.
     bindE (items_html rt xs) (\<lambda>ls. Inr ((''<li>'' @ s @ ''</li>'') # ls)))"

definition improvements_html :: "'n runtime \<Rightarrow> 'n jsval \<Rightarrow> error + string" where
  "improvements_html rt parsed =
     (let ci = own_prop parsed ''common_improvements''
      in if ToBoolean rt ci then
           (case ci of
              Arr xs \<Rightarrow> bindE (items_html rt xs) (\<lambda>ls.
                Inr (''<h3>Common Improvement Suggestions</h3><ul>'' @ join [] ls @ ''</ul>''))
            | _ \<Rightarrow> Inl (TypeError ''parsed.common_improvements.map is not a function''))
         else Inr [])"

text \<open>\<open>renderAllResults(payload)\<close>, lines 122 to 155.\<close>

definition renderAllResults :: "'n runtime \<Rightarrow> 'n jsval \<Rightarrow> error + 'n dom_write" where
  "renderAllResults rt payload =
     (if \<not> ToBoolean rt payload then Inr (TextContent (Str ''No response''))
      else if ToBoolean rt (own_prop payload ''parsed'') then
        (let parsed = own_prop payload ''parsed''
         in bindE (scores_html rt (metricsArr_of rt parsed)) (\<lambda>h1.
            bindE (improvements_html rt parsed) (\<lambda>h2.
              let html = h1 @ h2
              in if html = []
                 then Inr (InnerHTML (or_else rt (own_prop payload ''raw'')
                                        (Str (JSON_stringify rt parsed 2))))
                 else Inr (InnerHTML (Str html)))))
      else Inr (TextContent (or_else rt (own_prop payload ''raw'')
                               (Str (JSON_stringify rt payload 2)))))"

section \<open>A reference runtime\<close>

text \<open>
  The theorems hold for every runtime. To run the model on concrete texts, this section
  defines one: its numbers are the integers, its \<open>JSON.parse\<close> reads the JSON grammar
  without fraction and exponent parts and with code units below 256, and an object
  inherits the properties of \<open>Object.prototype\<close>.
\<close>

datatype tok = LBrace | RBrace | LBrack | RBrack | Colon | Comma | Scalar "int jsval"

datatype lstate = Idle | InStr string | InEsc string | InHex string "nat list" | InNum string | InWord string

definition is_digit :: "char \<Rightarrow> bool" where
  "is_digit c = (c \<in> set ''0123456789'')"

definition digit_value :: "char \<Rightarrow> nat" where
  "digit_value c = of_char c - 48"

definition hex_value :: "char \<Rightarrow> nat option" where
  "hex_value c =
     (if is_digit c then Some (digit_value c)
      else if c \<in> set ''abcdef'' then Some (of_char c - 87)
      else if c \<in> set ''ABCDEF'' then Some (of_char c - 55)
      else None)"

definition unescape :: "char \<Rightarrow> char option" where
  "unescape c =
     (if c = CHR ''\"'' \<or> c = CHR 0x5C \<or> c = CHR ''/'' then Some c
      else if c = CHR ''b'' then Some (CHR 0x08)
      else if c = CHR ''f'' then Some (CHR 0x0C)
      else if c = CHR ''n'' then Some (CHR 0x0A)
      else if c = CHR ''r'' then Some (CHR 0x0D)
      else if c = CHR ''t'' then Some (CHR 0x09)
      else None)"

text \<open>A number token: an optional minus sign, then \<open>0\<close> or digits that do not start with \<open>0\<close>.\<close>

definition number_of :: "string \<Rightarrow> int option" where
  "number_of ds =
     (let neg = (ds \<noteq> [] \<and> hd ds = CHR ''-'');
          digs = (if neg then tl ds else ds)
      in if digs = [] \<or> \<not> list_all is_digit digs \<or> (length digs > 1 \<and> hd digs = CHR ''0'')
         then None
         else let n = int (foldl (\<lambda>a c. 10 * a + digit_value c) 0 digs)
              in Some (if neg then - n else n))"

definition word_of :: "string \<Rightarrow> int jsval option" where
  "word_of w =
     (if w = ''true'' then Some (Bool True)
      else if w = ''false'' then Some (Bool False)
      else if w = ''null'' then Some Null
      else None)"

text \<open>Reading one code unit between tokens: the state and the tokens it starts.\<close>

definition start :: "char \<Rightarrow> (lstate \<times> tok list) option" where
  "start c =
     (if c = CHR '' '' \<or> c = CHR 0x09 \<or> c = CHR 0x0A \<or> c = CHR 0x0D then Some (Idle, [])
      else if c = CHR ''{'' then Some (Idle, [LBrace])
      else if c = CHR ''}'' then Some (Idle, [RBrace])
      else if c = CHR ''['' then Some (Idle, [LBrack])
      else if c = CHR '']'' then Some (Idle, [RBrack])
      else if c = CHR '':'' then Some (Idle, [Colon])
      else if c = CHR '','' then Some (Idle, [Comma])
      else if c = CHR ''\"'' then Some (InStr [], [])
      else if c = CHR ''-'' \<or> is_digit c then Some (InNum [c], [])
      else if c \<in> set ''abcdefghijklmnopqrstuvwxyz'' then Some (InWord [c], [])
      else None)"

fun lex :: "lstate \<Rightarrow> tok list \<Rightarrow> string \<Rightarrow> tok list option" where
  "lex Idle toks [] = Some toks"
| "lex (InNum ds) toks [] = map_option (\<lambda>n. toks @ [Scalar (Num n)]) (number_of ds)"
| "lex (InWord wd) toks [] = map_option (\<lambda>v. toks @ [Scalar v]) (word_of wd)"
| "lex st toks [] = None"
| "lex Idle toks (c # cs) =
     (case start c of None \<Rightarrow> None | Some (st, ts) \<Rightarrow> lex st (toks @ ts) cs)"
| "lex (InStr acc) toks (c # cs) =
     (if c = CHR ''\"'' then lex Idle (toks @ [Scalar (Str acc)]) cs
      else if c = CHR 0x5C then lex (InEsc acc) toks cs
      else if (of_char c :: nat) < 32 then None
      else lex (InStr (acc @ [c])) toks cs)"
| "lex (InEsc acc) toks (c # cs) =
     (if c = CHR ''u'' then lex (InHex acc []) toks cs
      else (case unescape c of None \<Rightarrow> None | Some x \<Rightarrow> lex (InStr (acc @ [x])) toks cs))"
| "lex (InHex acc hs) toks (c # cs) =
     (case hex_value c of
        None \<Rightarrow> None
      | Some h \<Rightarrow>
          if length hs < 3 then lex (InHex acc (hs @ [h])) toks cs
          else let code = foldl (\<lambda>a d. 16 * a + d) 0 (hs @ [h])
               in if code < 256 then lex (InStr (acc @ [char_of code])) toks cs else None)"
| "lex (InNum ds) toks (c # cs) =
     (if is_digit c then lex (InNum (ds @ [c])) toks cs
      else (case (number_of ds, start c) of
              (Some n, Some (st, ts)) \<Rightarrow> lex st (toks @ [Scalar (Num n)] @ ts) cs
            | _ \<Rightarrow> None))"
| "lex (InWord wd) toks (c # cs) =
     (if c \<in> set ''abcdefghijklmnopqrstuvwxyz'' then lex (InWord (wd @ [c])) toks cs
      else (case (word_of wd, start c) of
              (Some v, Some (st, ts)) \<Rightarrow> lex st (toks @ [Scalar v] @ ts) cs
            | _ \<Rightarrow> None))"

text \<open>
  Defining a property while an object is built: a key the object has keeps its place and
  takes the new value; a new key that is an array index goes before the other keys, in
  ascending order; any other new key goes last.
\<close>

definition is_index :: "string \<Rightarrow> bool" where
  "is_index k =
     (case number_of k of
        Some n \<Rightarrow> hd k \<noteq> CHR ''-'' \<and> n < 4294967295
      | None \<Rightarrow> False)"

definition index_value :: "string \<Rightarrow> nat" where
  "index_value k = foldl (\<lambda>a c. 10 * a + digit_value c) 0 k"

fun insert_index :: "nat \<Rightarrow> string \<Rightarrow> 'v \<Rightarrow> (string \<times> 'v) list \<Rightarrow> (string \<times> 'v) list" where
  "insert_index n k v [] = [(k, v)]"
| "insert_index n k v ((k', v') # r) =
     (if is_index k' \<and> index_value k' < n then (k', v') # insert_index n k v r
      else (k, v) # (k', v') # r)"

definition obj_put :: "(string \<times> 'v) list \<Rightarrow> string \<Rightarrow> 'v \<Rightarrow> (string \<times> 'v) list" where
  "obj_put kvs k v =
     (if map_of kvs k \<noteq> None then map (\<lambda>(k', v'). if k' = k then (k', v) else (k', v')) kvs
      else if is_index k then insert_index (index_value k) k v kvs
      else kvs @ [(k, v)])"

text \<open>
  The grammar over the tokens, with a stack of the arrays and objects that are open.
  \<open>KeyF k\<close> on the stack is a key whose value is being read.
\<close>

datatype frame = ArrF "int jsval list" | ObjF "(string \<times> int jsval) list" | KeyF string

datatype pmode = PValue | PValueOrEnd | PKeyOrEnd | PKey | PColon | PNext | PDone "int jsval"

fun deliver :: "int jsval \<Rightarrow> frame list \<Rightarrow> (pmode \<times> frame list) option" where
  "deliver v [] = Some (PDone v, [])"
| "deliver v (ArrF xs # st) = Some (PNext, ArrF (xs @ [v]) # st)"
| "deliver v (KeyF k # ObjF kvs # st) = Some (PNext, ObjF (obj_put kvs k v) # st)"
| "deliver v st = None"

fun close_arr :: "frame list \<Rightarrow> (pmode \<times> frame list) option" where
  "close_arr (ArrF xs # st) = deliver (Arr xs) st"
| "close_arr st = None"

fun close_obj :: "frame list \<Rightarrow> (pmode \<times> frame list) option" where
  "close_obj (ObjF kvs # st) = deliver (Obj kvs) st"
| "close_obj st = None"

fun open_value :: "frame list \<Rightarrow> tok \<Rightarrow> (pmode \<times> frame list) option" where
  "open_value st (Scalar v) = deliver v st"
| "open_value st LBrace = Some (PKeyOrEnd, ObjF [] # st)"
| "open_value st LBrack = Some (PValueOrEnd, ArrF [] # st)"
| "open_value st t = None"

fun read_key :: "frame list \<Rightarrow> tok \<Rightarrow> (pmode \<times> frame list) option" where
  "read_key st (Scalar (Str k)) = Some (PColon, KeyF k # st)"
| "read_key st t = None"

fun pstep :: "pmode \<Rightarrow> frame list \<Rightarrow> tok \<Rightarrow> (pmode \<times> frame list) option" where
  "pstep PValue st t = open_value st t"
| "pstep PValueOrEnd st t = (if t = RBrack then close_arr st else open_value st t)"
| "pstep PKeyOrEnd st t = (if t = RBrace then close_obj st else read_key st t)"
| "pstep PKey st t = read_key st t"
| "pstep PColon st t = (if t = Colon then Some (PValue, st) else None)"
| "pstep PNext st t =
     (if t = RBrack then close_arr st
      else if t = RBrace then close_obj st
      else if t = Comma then
        (case st of ArrF xs # r \<Rightarrow> Some (PValue, st)
                  | ObjF kvs # r \<Rightarrow> Some (PKey, st)
                  | _ \<Rightarrow> None)
      else None)"
| "pstep (PDone v) st t = None"

fun pda :: "pmode \<Rightarrow> frame list \<Rightarrow> tok list \<Rightarrow> int jsval option" where
  "pda (PDone v) st [] = Some v"
| "pda m st [] = None"
| "pda m st (t # ts) = (case pstep m st t of None \<Rightarrow> None | Some (m', st') \<Rightarrow> pda m' st' ts)"

definition ref_parse :: "string \<Rightarrow> error + int jsval" where
  "ref_parse s =
     (case lex Idle [] s of
        None \<Rightarrow> Inl (SyntaxError ''Unexpected token in JSON'')
      | Some toks \<Rightarrow>
          (case pda PValue [] toks of
             None \<Rightarrow> Inl (SyntaxError ''Unexpected token in JSON'')
           | Some v \<Rightarrow> Inr v))"

text \<open>\<open>JSON.stringify(value, null, space)\<close>: a string literal, then the values.\<close>

definition hex_digit :: "nat \<Rightarrow> char" where
  "hex_digit n = ''0123456789abcdef'' ! n"

definition quote_char :: "char \<Rightarrow> string" where
  "quote_char c =
     (if c = CHR ''\"'' then [CHR 0x5C, CHR ''\"'']
      else if c = CHR 0x5C then [CHR 0x5C, CHR 0x5C]
      else if c = CHR 0x08 then [CHR 0x5C, CHR ''b'']
      else if c = CHR 0x0C then [CHR 0x5C, CHR ''f'']
      else if c = CHR 0x0A then [CHR 0x5C, CHR ''n'']
      else if c = CHR 0x0D then [CHR 0x5C, CHR ''r'']
      else if c = CHR 0x09 then [CHR 0x5C, CHR ''t'']
      else if (of_char c :: nat) < 32
        then [CHR 0x5C, CHR ''u'', CHR ''0'', CHR ''0'',
              hex_digit (of_char c div 16), hex_digit (of_char c mod 16)]
      else [c])"

definition quote :: "string \<Rightarrow> string" where
  "quote s = ''\"'' @ concat (map quote_char s) @ ''\"''"

definition int_string :: "int \<Rightarrow> string" where
  "int_string i = (if i < 0 then ''-'' @ decimal (nat (- i)) else decimal (nat i))"

definition wrap :: "nat \<Rightarrow> nat \<Rightarrow> string \<Rightarrow> string \<Rightarrow> string list \<Rightarrow> string" where
  "wrap sp lvl l r items =
     (if items = [] then l @ r
      else if sp = 0 then l @ join '','' items @ r
      else l @ [CHR 0x0A] @ replicate (sp * (lvl + 1)) CHR '' '' @
           join ('','' @ [CHR 0x0A] @ replicate (sp * (lvl + 1)) CHR '' '') items @
           [CHR 0x0A] @ replicate (sp * lvl) CHR '' '' @ r)"

fun ser :: "nat \<Rightarrow> nat \<Rightarrow> int jsval \<Rightarrow> string option"
  and ser_elems :: "nat \<Rightarrow> nat \<Rightarrow> int jsval list \<Rightarrow> string list"
  and ser_members :: "nat \<Rightarrow> nat \<Rightarrow> (string \<times> int jsval) list \<Rightarrow> string list" where
  "ser sp lvl Undefined = None"
| "ser sp lvl (Builtin b) = None"
| "ser sp lvl Null = Some ''null''"
| "ser sp lvl (Bool b) = Some (if b then ''true'' else ''false'')"
| "ser sp lvl (Num n) = Some (int_string n)"
| "ser sp lvl (Str s) = Some (quote s)"
| "ser sp lvl (Arr xs) = Some (wrap sp lvl ''['' '']'' (ser_elems sp (lvl + 1) xs))"
| "ser sp lvl (Obj kvs) = Some (wrap sp lvl ''{'' ''}'' (ser_members sp (lvl + 1) kvs))"
| "ser_elems sp lvl [] = []"
| "ser_elems sp lvl (x # xs) =
     (case ser sp lvl x of None \<Rightarrow> ''null'' | Some t \<Rightarrow> t) # ser_elems sp lvl xs"
| "ser_members sp lvl [] = []"
| "ser_members sp lvl (kv # kvs) =
     (case ser sp lvl (snd kv) of
        None \<Rightarrow> ser_members sp lvl kvs
      | Some t \<Rightarrow> (quote (fst kv) @ (if sp = 0 then '':'' else '': '') @ t) # ser_members sp lvl kvs)"

definition ref_stringify :: "int jsval \<Rightarrow> nat \<Rightarrow> string" where
  "ref_stringify v sp = (case ser sp 0 v of Some t \<Rightarrow> t | None \<Rightarrow> [])"

text \<open>
  What an object inherits from \<open>Object.prototype\<close>: the name, and the string the
  inherited value converts to.
\<close>

definition Object_prototype :: "(string \<times> string) list" where
  "Object_prototype =
     [(''constructor'', ''function Object() { [native code] }''),
      (''toString'', ''function toString() { [native code] }''),
      (''toLocaleString'', ''function toLocaleString() { [native code] }''),
      (''valueOf'', ''function valueOf() { [native code] }''),
      (''hasOwnProperty'', ''function hasOwnProperty() { [native code] }''),
      (''isPrototypeOf'', ''function isPrototypeOf() { [native code] }''),
      (''propertyIsEnumerable'', ''function propertyIsEnumerable() { [native code] }''),
      (''__defineGetter__'', ''function __defineGetter__() { [native code] }''),
      (''__defineSetter__'', ''function __defineSetter__() { [native code] }''),
      (''__lookupGetter__'', ''function __lookupGetter__() { [native code] }''),
      (''__lookupSetter__'', ''function __lookupSetter__() { [native code] }''),
      (''__proto__'', ''[object Object]'')]"

definition ref_prototype_get :: "int jsval \<Rightarrow> string \<Rightarrow> int jsval" where
  "ref_prototype_get v k =
     (case map_of Object_prototype k of Some t \<Rightarrow> Builtin t | None \<Rightarrow> Undefined)"

text \<open>
  \<open>o[key] = v\<close> in a module, which is strict code: it throws on \<open>null\<close>,
  \<open>undefined\<close> and the primitive values. On an object it defines or replaces the own
  property, and the key \<open>__proto__\<close> changes no own property. On an array an index
  sets or appends an element (the holes read \<open>undefined\<close>), \<open>length\<close> takes a
  number in range and refuses any other value here, and another key changes no element.
\<close>

definition ref_property_set :: "int jsval \<Rightarrow> string \<Rightarrow> int jsval \<Rightarrow> error + int jsval" where
  "ref_property_set v k x =
     (case v of
        Obj kvs \<Rightarrow> Inr (if k = ''__proto__'' then Obj kvs else Obj (obj_put kvs k x))
      | Arr xs \<Rightarrow>
          if is_index k then
            (if index_value k < length xs then Inr (Arr (xs[index_value k := x]))
             else Inr (Arr (xs @ replicate (index_value k - length xs) Undefined @ [x])))
          else if k = ''length'' then
            (case x of
               Num n \<Rightarrow>
                 if 0 \<le> n \<and> n < 4294967296
                 then Inr (Arr (take (nat n) xs @ replicate (nat n - length xs) Undefined))
                 else Inl (JSError ''RangeError'' ''Invalid array length'' None)
             | _ \<Rightarrow> Inl (JSError ''RangeError'' ''Invalid array length'' None))
          else Inr (Arr xs)
      | Builtin b \<Rightarrow> Inr (Builtin b)
      | _ \<Rightarrow> Inl (TypeError (''Cannot create property '' @ k)))"

definition ref_runtime :: "int runtime" where
  "ref_runtime =
     \<lparr>JSON_parse = ref_parse,
      JSON_stringify = ref_stringify,
      Number_toString = int_string,
      Number_toBoolean = (\<lambda>n. n \<noteq> 0),
      prototype_get = ref_prototype_get,
      property_set = ref_property_set\<rparr>"

section \<open>The specification's normalizer\<close>

text \<open>
  Steps 1 and 2 of the specification's algorithm, in its words: parse the whole text; if
  that fails, locate the first \<open>{\<close> and the last \<open>}\<close>, and if both exist and the
  first precedes the second, parse the substring between them, inclusive; otherwise, and
  when that parse fails too, the outcome is the unparsed one (\<open>Null\<close>).
\<close>

definition first_index :: "char \<Rightarrow> string \<Rightarrow> nat option" where
  "first_index c s =
     (if c \<in> set s then Some (length (takeWhile (\<lambda>x. x \<noteq> c) s)) else None)"

definition last_index :: "char \<Rightarrow> string \<Rightarrow> nat option" where
  "last_index c s =
     (if c \<in> set s then Some (length s - 1 - length (takeWhile (\<lambda>x. x \<noteq> c) (rev s)))
      else None)"

definition spec_normalize :: "'n runtime \<Rightarrow> string \<Rightarrow> error + 'n jsval" where
  "spec_normalize rt rawText =
     (case JSON_parse rt rawText of
        Inr v \<Rightarrow> Inr v
      | Inl err \<Rightarrow>
          (case (first_index CHR ''{'' rawText, last_index CHR ''}'' rawText) of
             (Some i, Some j) \<Rightarrow>
               if i < j
               then (case JSON_parse rt (take (j + 1 - i) (drop i rawText)) of
                       Inr v \<Rightarrow> Inr v
                     | Inl e \<Rightarrow> Inr Null)
               else Inr Null
           | _ \<Rightarrow> Inr Null))"

section \<open>The inputs the theorems are about\<close>

text \<open>
  The values a template literal converts without an exception: every value but an object
  with an own property \<open>toString\<close>, and an array that holds one. The request fields of
  the specification's data model, text or absent, are among them.
\<close>

fun stringifiable :: "'n jsval \<Rightarrow> bool" where
  "stringifiable (Arr xs) = (\<forall>x \<in> set xs. stringifiable x)"
| "stringifiable (Obj kvs) = (map_of kvs ''toString'' = None)"
| "stringifiable v = True"

definition renderable :: "'n details \<Rightarrow> bool" where
  "renderable d =
     (stringifiable (url d) \<and> stringifiable (title d) \<and> stringifiable (videoType d) \<and>
      stringifiable (purpose d) \<and> stringifiable (keyConcepts d) \<and>
      stringifiable (justifications d) \<and> stringifiable (goal d))"

text \<open>
  The output shape that the prompt's closing instruction documents: a JSON object with an
  entry \<open>{ "metric": name, "score": number, "feedback": text }\<close> for each metric and a
  trailing field \<open>common_improvements\<close> with a list of suggestions. The instruction
  does not say where in the object the entries stand. \<open>UnderKey k\<close> is the object that
  holds them as a list under the key \<open>k\<close>; \<open>Direct keys\<close> is the object that holds
  them as its own fields, under the given keys. \<open>ci\<close> is the list of suggestions, or
  \<open>None\<close> when the reply has no such field.
\<close>

definition entry_of :: "string \<times> 'n \<times> string \<Rightarrow> 'n jsval" where
  "entry_of e =
     (case e of (m, sc, f) \<Rightarrow> Obj [(''metric'', Str m), (''score'', Num sc), (''feedback'', Str f)])"

definition improvements_field :: "string list option \<Rightarrow> (string \<times> 'n jsval) list" where
  "improvements_field ci =
     (case ci of None \<Rightarrow> [] | Some cs \<Rightarrow> [(''common_improvements'', Arr (map Str cs))])"

datatype shape = UnderKey string | Direct "string list"

fun reply_value :: "shape \<Rightarrow> (string \<times> 'n \<times> string) list \<Rightarrow> string list option \<Rightarrow> 'n jsval" where
  "reply_value (UnderKey k) es ci = Obj ((k, Arr (map entry_of es)) # improvements_field ci)"
| "reply_value (Direct keys) es ci = Obj (zip keys (map entry_of es) @ improvements_field ci)"

text \<open>
  The conventional keys are \<open>metrics\<close> and \<open>results\<close>. Entries that are fields of
  the object have distinct keys, none of them a conventional one, and are entries of the
  documented kind: a metric name that is not empty, and a score from 1 to 10, which is a
  truthy number.
\<close>

fun documented :: "'n runtime \<Rightarrow> shape \<Rightarrow> (string \<times> 'n \<times> string) list \<Rightarrow> bool" where
  "documented rt (UnderKey k) es = (k = ''metrics'' \<or> k = ''results'')"
| "documented rt (Direct keys) es =
     (length keys = length es \<and> distinct keys \<and>
      ''metrics'' \<notin> set keys \<and> ''results'' \<notin> set keys \<and> ''common_improvements'' \<notin> set keys \<and>
      list_all (\<lambda>e. fst e \<noteq> [] \<and> Number_toBoolean rt (fst (snd e))) es)"

text \<open>What \<open>renderAllResults\<close> is to show for the entries and for the suggestions.\<close>

definition entry_block :: "'n runtime \<Rightarrow> string \<times> 'n \<times> string \<Rightarrow> string" where
  "entry_block rt e =
     (case e of (m, sc, f) \<Rightarrow>
        ''<h3>'' @ m @ ''</h3><strong>Score: '' @ Number_toString rt sc @ ''</strong><div>'' @ f @
        ''</div><hr>'')"

definition scores_block :: "'n runtime \<Rightarrow> (string \<times> 'n \<times> string) list \<Rightarrow> string" where
  "scores_block rt es =
     (if es = [] then []
      else ''<div class=\"all-scores\">'' @ concat (map (entry_block rt) es) @ ''</div>'')"

definition improvements_block :: "string list option \<Rightarrow> string" where
  "improvements_block ci =
     (case ci of
        None \<Rightarrow> []
      | Some cs \<Rightarrow>
          ''<h3>Common Improvement Suggestions</h3><ul>'' @
          concat (map (\<lambda>c. ''<li>'' @ c @ ''</li>'') cs) @ ''</ul>'')"

text \<open>
  The body \<open>{ ok: true, raw, parsed }\<close> of a single-metric response (\<open>server.js\<close>,
  line 154) as \<open>renderMetricResult\<close> receives it, and the three places where a reply
  holds a list of entries: the reply is the list, or an object that holds it under
  \<open>results\<close>, or under \<open>metrics\<close>.
\<close>

definition payload_of :: "string \<Rightarrow> 'n jsval \<Rightarrow> 'n jsval" where
  "payload_of raw parsed = Obj [(''ok'', Bool True), (''raw'', Str raw), (''parsed'', parsed)]"

datatype placement = AsList | UnderResults | UnderMetrics

fun placed :: "placement \<Rightarrow> 'n jsval list \<Rightarrow> 'n jsval" where
  "placed AsList es = Arr es"
| "placed UnderResults es = Obj [(''results'', Arr es)]"
| "placed UnderMetrics es = Obj [(''metrics'', Arr es)]"

text \<open>
  The specification's relation between a requested name and the \<open>metric\<close> field of an
  entry: the field contains the name, as a run of consecutive code units.
\<close>

definition spec_contains :: "string \<Rightarrow> string \<Rightarrow> bool" where
  "spec_contains field name = (\<exists>pre post. field = pre @ name @ post)"

text \<open>
  A world for the examples: no stored file, every write succeeds, no call made yet; and a
  backend that answers every prompt with the same reply.
\<close>

definition empty_world :: world where
  "empty_world =
     \<lparr>files = (\<lambda>p. Inl (JSError ''Error'' ''ENOENT: no such file or directory'' (Some ''ENOENT''))),
      write_error = (\<lambda>p. None),
      gemini_calls = []\<rparr>"

definition replies :: "string \<Rightarrow> string \<Rightarrow> error + string" where
  "replies raw prompt = Inr raw"

text \<open>
  The request of the specification's end-to-end example: url \<open>v1\<close>, type
  \<open>tutorial\<close>, purpose \<open>teach X\<close>, the other fields absent and no stored title.
\<close>

definition sample_details :: "int details" where
  "sample_details =
     \<lparr>url = Str ''v1'', videoType = Str ''tutorial'', purpose = Str ''teach X'',
      keyConcepts = Undefined, justifications = Undefined, goal = Undefined, title = Undefined\<rparr>"

text \<open>
  The body of an all-metrics request for that video, the same with a metric for the
  single-metric route, a body without \<open>url\<close>, and the event of the same request at the
  Lambda. With no stored title the routes build \<open>sample_details\<close> with the title
  \<open>Unknown Title\<close>.
\<close>

definition sample_body :: "int jsval" where
  "sample_body =
     Obj [(''url'', Str ''v1''), (''videoType'', Str ''tutorial''), (''purpose'', Str ''teach X'')]"

definition sample_metric_body :: "int jsval" where
  "sample_metric_body =
     Obj [(''url'', Str ''v1''), (''videoType'', Str ''tutorial''), (''purpose'', Str ''teach X''),
          (''metric'', Str ''Pacing and speed of narration'')]"

definition body_without_url :: "int jsval" where
  "body_without_url =
     Obj [(''videoType'', Str ''tutorial''), (''metric'', Str ''Pacing and speed of narration'')]"

definition sample_event :: event where
  "sample_event =
     \<lparr>ev_path = Some ''/evaluate-all'', ev_httpMethod = Some ''POST'', ev_http_method = None,
      ev_query_url = None, ev_body = Some ''{\"url\":\"v1\"}''\<rparr>"

definition sample_prompt :: "string list \<Rightarrow> string" where
  "sample_prompt names =
     (case constructPrompt ref_runtime (sample_details\<lparr>title := Str ''Unknown Title''\<rparr>)
             (map Str names) of
        Inr prompt \<Rightarrow> prompt
      | Inl err \<Rightarrow> [])"

section \<open>Properties\<close>

subsection \<open>Sequencing, strings and conversions\<close>

lemma bindE_Inr [simp]: "bindE (Inr x) f = f x"
  by (simp add: bindE_def)

lemma bindE_Inl [simp]: "bindE (Inl e) f = Inl e"
  by (simp add: bindE_def)

lemma indexOf_from_eq:
  "indexOf_from s c n =
     (if c \<in> set s then int (n + length (takeWhile (\<lambda>x. x \<noteq> c) s)) else - 1)"
  by (induction s arbitrary: n) auto

lemma takeWhile_shorter:
  "c \<in> set ys \<Longrightarrow> length (takeWhile (\<lambda>x. x \<noteq> c) ys) < length ys"
  by (induction ys) auto

lemma lastIndexOf_from_eq:
  "lastIndexOf_from s c n found =
     (if c \<in> set s
      then int (n + (length s - 1 - length (takeWhile (\<lambda>x. x \<noteq> c) (rev s))))
      else found)"
proof (induction s arbitrary: n found)
  case Nil
  then show ?case by simp
next
  case (Cons x xs)
  show ?case
  proof (cases "c \<in> set xs")
    case True
    then have "takeWhile (\<lambda>x. x \<noteq> c) (rev xs @ [x]) = takeWhile (\<lambda>x. x \<noteq> c) (rev xs)"
      by (intro takeWhile_append1[where x = c]) auto
    moreover have "length (takeWhile (\<lambda>x. x \<noteq> c) (rev xs)) < length xs"
      using True takeWhile_shorter[of c "rev xs"] by simp
    ultimately show ?thesis
      using True Cons.IH[of "Suc n"] by (auto simp: Suc_diff_le)
  next
    case False
    then have "takeWhile (\<lambda>x. x \<noteq> c) (rev xs @ [x]) = rev xs @ takeWhile (\<lambda>x. x \<noteq> c) [x]"
      by (intro takeWhile_append2) auto
    then show ?thesis
      using False Cons.IH[of "Suc n"] by auto
  qed
qed

lemma indexOf_first_index:
  "indexOf s c = (case first_index c s of Some i \<Rightarrow> int i | None \<Rightarrow> - 1)"
  by (simp add: indexOf_def first_index_def indexOf_from_eq)

lemma lastIndexOf_last_index:
  "lastIndexOf s c = (case last_index c s of Some i \<Rightarrow> int i | None \<Rightarrow> - 1)"
  by (simp add: lastIndexOf_def last_index_def lastIndexOf_from_eq)

lemma last_index_less: "last_index c s = Some j \<Longrightarrow> j < length s"
  using takeWhile_shorter[of c "rev s"] by (auto simp: last_index_def split: if_splits)

lemma slice_take_drop:
  "i \<le> j \<Longrightarrow> j < length s \<Longrightarrow> slice s (int i) (int j + 1) = take (j + 1 - i) (drop i s)"
  by (auto simp: slice_def Let_def min_def nat_diff_distrib' nat_add_distrib)

lemma tryParseJSON_refines: "tryParseJSON rt text = spec_normalize rt text"
  by (auto simp: tryParseJSON_def spec_normalize_def Let_def indexOf_first_index
        lastIndexOf_last_index slice_take_drop
      dest: last_index_less split: sum.splits option.splits)

lemma tryParseJSON_returns: "\<exists>v. tryParseJSON rt text = Inr v"
  by (simp add: tryParseJSON_def Let_def split: sum.split)


lemma takeWhile_absent: "c \<notin> set xs \<Longrightarrow> takeWhile (\<lambda>x. x \<noteq> c) xs = xs"
  by (induction xs) auto

lemma first_index_wrapped:
  "CHR ''{'' \<notin> set pre \<Longrightarrow> first_index CHR ''{'' (pre @ CHR ''{'' # rest) = Some (length pre)"
  by (simp add: first_index_def takeWhile_tail takeWhile_absent)

lemma last_index_wrapped:
  "CHR ''}'' \<notin> set post \<Longrightarrow>
   last_index CHR ''}'' (front @ CHR ''}'' # post) = Some (length front)"
  by (simp add: last_index_def takeWhile_tail takeWhile_absent)

lemma prose_wrapped:
  assumes "CHR ''{'' \<notin> set pre" "CHR ''}'' \<notin> set post"
    and "JSON_parse rt (pre @ CHR ''{'' # mid @ CHR ''}'' # post) = Inl err"
  shows "tryParseJSON rt (pre @ CHR ''{'' # mid @ CHR ''}'' # post) =
         (case JSON_parse rt (CHR ''{'' # mid @ ''}'') of Inr v \<Rightarrow> Inr v | Inl e \<Rightarrow> Inr Null)"
proof -
  have l: "last_index CHR ''}'' (pre @ CHR ''{'' # mid @ CHR ''}'' # post) =
      Some (length pre + length mid + 1)"
    using last_index_wrapped[OF assms(2), of "pre @ CHR ''{'' # mid"] by simp
  show ?thesis
    using assms(3) first_index_wrapped[OF assms(1), of "mid @ CHR ''}'' # post"] l
    by (simp add: tryParseJSON_refines spec_normalize_def)
qed

lemma tryParseJSON_parsed:
  "JSON_parse rt raw = Inr v \<Longrightarrow> tryParseJSON rt raw = Inr v"
  by (simp add: tryParseJSON_def)

subsection \<open>Normalization\<close>

text \<open>
  Claim C1. For every text, \<open>tryParseJSON\<close> returns a value and throws nothing: the
  value is what \<open>JSON.parse\<close> gave for the text or for a slice of it, or it is
  \<open>null\<close>. In the \<open>null\<close> case the Express routes answer \<open>{ ok: true, raw }\<close>
  with the text unchanged and no \<open>parsed\<close> field, the Lambda answers with
  \<open>parsed: null\<close>, and the browser shows the raw text (the JSON of the payload when
  the text is empty).
\<close>

theorem tryParseJSON_never_throws:
  "(\<exists>v. tryParseJSON rt text = Inr v \<and>
        (v = Null \<or> JSON_parse rt text = Inr v \<or> (\<exists>i j. JSON_parse rt (slice text i j) = Inr v)))
   \<and> (tryParseJSON rt text = Inr Null \<longrightarrow>
        respond rt text = Inr (res_json 200 (Obj [(''ok'', Bool True), (''raw'', Str text)]))
      \<and> respond_lambda rt text =
          Inr (buildResponse rt 200 (Obj [(''ok'', Bool True), (''raw'', Str text), (''parsed'', Null)]))
      \<and> renderAllResults rt (Obj [(''ok'', Bool True), (''raw'', Str text)]) =
          Inr (TextContent (if text \<noteq> [] then Str text
                            else Str (JSON_stringify rt (Obj [(''ok'', Bool True), (''raw'', Str text)]) 2))))"
proof (intro conjI impI)
  show "\<exists>v. tryParseJSON rt text = Inr v \<and>
        (v = Null \<or> JSON_parse rt text = Inr v \<or> (\<exists>i j. JSON_parse rt (slice text i j) = Inr v))"
    by (auto simp: tryParseJSON_def Let_def split: sum.split)
next
  assume "tryParseJSON rt text = Inr Null"
  then show "respond rt text = Inr (res_json 200 (Obj [(''ok'', Bool True), (''raw'', Str text)]))"
    by (simp add: respond_def)
next
  assume "tryParseJSON rt text = Inr Null"
  then show "respond_lambda rt text =
      Inr (buildResponse rt 200 (Obj [(''ok'', Bool True), (''raw'', Str text), (''parsed'', Null)]))"
    by (simp add: respond_lambda_def)
next
  show "renderAllResults rt (Obj [(''ok'', Bool True), (''raw'', Str text)]) =
          Inr (TextContent (if text \<noteq> [] then Str text
                            else Str (JSON_stringify rt (Obj [(''ok'', Bool True), (''raw'', Str text)]) 2)))"
    by (simp add: renderAllResults_def or_else_def)
qed


text \<open>The reply \<open>not json {\<close>, with a brace that never closes, in the reference runtime.\<close>

theorem tryParseJSON_never_throws_witness:
  "tryParseJSON ref_runtime ''not json {'' = Inr Null
   \<and> respond ref_runtime ''not json {'' =
       Inr (res_json 200 (Obj [(''ok'', Bool True), (''raw'', Str ''not json {'')]))
   \<and> respond_lambda ref_runtime ''not json {'' =
       Inr (buildResponse ref_runtime 200
              (Obj [(''ok'', Bool True), (''raw'', Str ''not json {''), (''parsed'', Null)]))
   \<and> renderAllResults ref_runtime (Obj [(''ok'', Bool True), (''raw'', Str ''not json {'')]) =
       Inr (TextContent (Str ''not json {''))"
proof -
  have h: "tryParseJSON ref_runtime ''not json {'' = Inr Null"
    by code_simp
  show ?thesis
    using h tryParseJSON_never_throws[of ref_runtime "''not json {''"] by simp
qed


text \<open>
  Claim C2. \<open>tryParseJSON\<close> is the specification's two steps, the first success
  winning: the whole text is parsed; if that fails, the substring from the first \<open>{\<close>
  to the last \<open>}\<close> is parsed, when both are there and the first stands before the
  last; otherwise the result is \<open>null\<close>. In particular, take a JSON object
  \<open>{mid}\<close> that parses to \<open>v\<close>, with a text before it that has no \<open>{\<close> and a
  text after it that has no \<open>}\<close>. When the whole is prose around the object, that
  is, no JSON text itself, the second step finds the object and the result is \<open>v\<close>;
  when the whole is a JSON text of the same value, as with white space around the object,
  the first step gives \<open>v\<close>.
\<close>

theorem tryParseJSON_two_step:
  "tryParseJSON rt text = spec_normalize rt text
   \<and> (CHR ''{'' \<notin> set pre \<and> CHR ''}'' \<notin> set post
      \<and> JSON_parse rt (CHR ''{'' # mid @ ''}'') = Inr v
      \<and> (JSON_parse rt (pre @ CHR ''{'' # mid @ CHR ''}'' # post) = Inl err
         \<or> JSON_parse rt (pre @ CHR ''{'' # mid @ CHR ''}'' # post) = Inr v)
      \<longrightarrow> tryParseJSON rt (pre @ CHR ''{'' # mid @ CHR ''}'' # post) = Inr v)"
proof (intro conjI impI)
  show "tryParseJSON rt text = spec_normalize rt text"
    by (rule tryParseJSON_refines)
next
  assume a: "CHR ''{'' \<notin> set pre \<and> CHR ''}'' \<notin> set post
      \<and> JSON_parse rt (CHR ''{'' # mid @ ''}'') = Inr v
      \<and> (JSON_parse rt (pre @ CHR ''{'' # mid @ CHR ''}'' # post) = Inl err
         \<or> JSON_parse rt (pre @ CHR ''{'' # mid @ CHR ''}'' # post) = Inr v)"
  then consider (prose) "JSON_parse rt (pre @ CHR ''{'' # mid @ CHR ''}'' # post) = Inl err"
    | (json) "JSON_parse rt (pre @ CHR ''{'' # mid @ CHR ''}'' # post) = Inr v"
    by blast
  then show "tryParseJSON rt (pre @ CHR ''{'' # mid @ CHR ''}'' # post) = Inr v"
  proof cases
    case prose
    then show ?thesis
      using a prose_wrapped[of pre post rt mid err] by simp
  next
    case json
    then show ?thesis
      by (rule tryParseJSON_parsed)
  qed
qed

text \<open>The specification's example, \<open>Here is the result: {...} Thanks!\<close>.\<close>

theorem tryParseJSON_two_step_witness:
  "CHR ''{'' \<notin> set ''Here is the result: '' \<and> CHR ''}'' \<notin> set '' Thanks!''
   \<and> JSON_parse ref_runtime ''Here is the result: {\"score\":7} Thanks!''
        = Inl (SyntaxError ''Unexpected token in JSON'')
   \<and> JSON_parse ref_runtime ''{\"score\":7}'' = Inr (Obj [(''score'', Num 7)])
   \<and> tryParseJSON ref_runtime ''Here is the result: {\"score\":7} Thanks!''
        = Inr (Obj [(''score'', Num 7)])"
proof -
  have a: "CHR ''{'' \<notin> set ''Here is the result: ''" and b: "CHR ''}'' \<notin> set '' Thanks!''"
    by simp_all
  have c: "JSON_parse ref_runtime
             (''Here is the result: '' @ CHR ''{'' # ''\"score\":7'' @ CHR ''}'' # '' Thanks!'')
        = Inl (SyntaxError ''Unexpected token in JSON'')"
    by code_simp
  have d: "JSON_parse ref_runtime (CHR ''{'' # ''\"score\":7'' @ ''}'') = Inr (Obj [(''score'', Num 7)])"
    by code_simp
  have e: "tryParseJSON ref_runtime
             (''Here is the result: '' @ CHR ''{'' # ''\"score\":7'' @ CHR ''}'' # '' Thanks!'')
        = Inr (Obj [(''score'', Num 7)])"
    using a b c d
      tryParseJSON_two_step[of ref_runtime "[]"
        "''Here is the result: ''" "'' Thanks!''" "''\"score\":7''" "Obj [(''score'', Num 7)]"
        "SyntaxError ''Unexpected token in JSON''"]
    by blast
  show ?thesis
    using a b c d e by simp
qed

subsection \<open>The prompt\<close>

lemma ToString_total:
  "stringifiable v \<Longrightarrow> \<exists>s. ToString rt v = Inr s"
  "(\<forall>x \<in> set xs. stringifiable x) \<Longrightarrow> \<exists>ss. ToString_elems rt xs = Inr ss"
proof (induction rt v and rt xs rule: ToString_ToString_elems.induct)
  case (6 rt xs)
  then show ?case by fastforce
next
  case (10 rt x xs)
  then show ?case by fastforce
qed simp_all

lemma videoInfo_total:
  assumes "renderable d"
  shows "\<exists>info. videoInfo rt d = Inr info"
proof -
  have "stringifiable (or_else rt (title d) (Str ''Unknown Title''))"
    using assms by (simp add: renderable_def or_else_def)
  then obtain s2 where "ToString rt (or_else rt (title d) (Str ''Unknown Title'')) = Inr s2"
    using ToString_total(1) by blast
  moreover obtain s1 s3 s4 s5 s6 s7 where
    "ToString rt (url d) = Inr s1" "ToString rt (videoType d) = Inr s3"
    "ToString rt (purpose d) = Inr s4" "ToString rt (keyConcepts d) = Inr s5"
    "ToString rt (justifications d) = Inr s6" "ToString rt (goal d) = Inr s7"
    using assms ToString_total(1)[of _ rt] unfolding renderable_def by metis
  ultimately show ?thesis by (simp add: videoInfo_def)
qed

lemma map_numbered_strings:
  "map_numbered rt i (map Str ms) =
     Inr (map (\<lambda>j. decimal (i + j + 1) @ ''. '' @ ms ! j) [0..<length ms])"
proof (induction ms arbitrary: i)
  case Nil
  then show ?case by simp
next
  case (Cons m ms)
  have "[0..<length (m # ms)] = 0 # map Suc [0..<length ms]"
    by (simp add: upt_conv_Cons map_Suc_upt del: upt_Suc)
  then show ?case by (simp add: Cons.IH comp_def del: upt_Suc)
qed

lemma join_terminated:
  "ls \<noteq> [] \<Longrightarrow> join sep ls @ sep = concat (map (\<lambda>l. l @ sep) ls)"
  by (induction sep ls rule: join.induct) simp_all

lemma map_numbered_total:
  "(\<forall>m \<in> set ms. stringifiable m) \<Longrightarrow> \<exists>ls. map_numbered rt i ms = Inr ls"
proof (induction ms arbitrary: i)
  case Nil
  then show ?case by simp
next
  case (Cons m ms)
  obtain s where "ToString rt m = Inr s"
    using Cons.prems ToString_total(1)[of m rt] by auto
  moreover obtain ls where "map_numbered rt (Suc i) ms = Inr ls"
    using Cons.IH[of "Suc i"] Cons.prems by auto
  ultimately show ?case by simp
qed

text \<open>
  Claim C4. For a request whose fields convert to strings and a list of metric names that
  is not empty, the prompt holds, after the line \<open>Metrics to evaluate:\<close> and an empty
  line, one line for each name, in the order of the list: the number of the name, counted
  from 1, a full stop, a space and the name. Nothing stands between these lines; an empty
  line and the closing instruction follow.
\<close>

theorem constructPrompt_numbers_metrics:
  assumes "renderable d" and "ms \<noteq> []"
  shows "\<exists>info. videoInfo rt d = Inr info \<and>
           constructPrompt rt d (map Str ms) =
             Inr (header @ ''\<newline>\<newline>'' @ info @ ''\<newline>\<newline>Metrics to evaluate:\<newline>\<newline>'' @
                  concat (map (\<lambda>i. decimal (i + 1) @ ''. '' @ ms ! i @ ''\<newline>'') [0..<length ms]) @
                  ''\<newline>'' @ instruction)"
proof -
  obtain info where info: "videoInfo rt d = Inr info"
    using videoInfo_total[OF assms(1)] by blast
  let ?ls = "map (\<lambda>j. decimal (0 + j + 1) @ ''. '' @ ms ! j) [0..<length ms]"
  have ne: "?ls \<noteq> []" using assms(2) by simp
  have "join ''\<newline>'' ?ls @ ''\<newline>'' = concat (map (\<lambda>l. l @ ''\<newline>'') ?ls)"
    by (rule join_terminated[OF ne])
  then have "join ''\<newline>'' ?ls @ ''\<newline>\<newline>'' @ instruction =
      concat (map (\<lambda>i. decimal (i + 1) @ ''. '' @ ms ! i @ ''\<newline>'') [0..<length ms]) @ ''\<newline>'' @ instruction"
    by (simp add: comp_def del: upt_Suc)
  then show ?thesis
    using info by (simp add: constructPrompt_def metricsText_def map_numbered_strings del: upt_Suc)
qed

text \<open>Two metrics of the catalog, for the request of the specification's example.\<close>

theorem constructPrompt_numbers_metrics_witness:
  "renderable sample_details \<and> [''Pacing and speed of narration'', ''Reasoning transparency''] \<noteq> [] \<and>
   constructPrompt ref_runtime sample_details (map Str [''Pacing and speed of narration'', ''Reasoning transparency'']) =
     Inr (header @
          ''\<newline>\<newline>Video URL: v1\<newline>Title: Unknown Title\<newline>Video Type: tutorial\<newline>Purpose: teach X\<newline>Key Concepts: undefined\<newline>Justifications: undefined\<newline>Evaluation Goal: undefined\<newline>\<newline>Metrics to evaluate:\<newline>\<newline>1. Pacing and speed of narration\<newline>2. Reasoning transparency\<newline>\<newline>'' @
          instruction)"
proof -
  have r: "renderable sample_details"
    by (simp add: sample_details_def renderable_def)
  have i: "videoInfo ref_runtime sample_details = Inr ''Video URL: v1\<newline>Title: Unknown Title\<newline>Video Type: tutorial\<newline>Purpose: teach X\<newline>Key Concepts: undefined\<newline>Justifications: undefined\<newline>Evaluation Goal: undefined''"
    by code_simp
  have d1: "decimal (Suc 0) = ''1''" and d2: "decimal 2 = ''2''"
    by code_simp+
  show ?thesis
    using r i d1 d2 constructPrompt_numbers_metrics[OF r, of "[''Pacing and speed of narration'', ''Reasoning transparency'']" ref_runtime]
    by (auto simp: upt_rec numeral_2_eq_2)
qed

text \<open>
  The layout of the prompt. The request shows as seven labeled lines in the order url,
  title, videoType, purpose, keyConcepts, justifications, goal, between the header and
  the list of metrics. Each field shows as its string conversion, so a field that is
  absent shows as the text \<open>undefined\<close> and is not left out; a title that is absent,
  or falsy, in the details that \<open>constructPrompt\<close> receives shows as
  \<open>Unknown Title\<close>.
\<close>

lemma constructPrompt_labeled_lines:
  assumes "renderable d" and "\<forall>m \<in> set ms. stringifiable m"
  shows "\<exists>s_url s_title s_videoType s_purpose s_keyConcepts s_justifications s_goal mtext.
           ToString rt (url d) = Inr s_url \<and>
           ToString rt (if ToBoolean rt (title d) then title d else Str ''Unknown Title'') = Inr s_title \<and>
           ToString rt (videoType d) = Inr s_videoType \<and>
           ToString rt (purpose d) = Inr s_purpose \<and>
           ToString rt (keyConcepts d) = Inr s_keyConcepts \<and>
           ToString rt (justifications d) = Inr s_justifications \<and>
           ToString rt (goal d) = Inr s_goal \<and>
           metricsText rt ms = Inr mtext \<and>
           constructPrompt rt d ms =
             Inr (header @ ''\<newline>\<newline>'' @
                  ''Video URL: '' @ s_url @
                  ''\<newline>Title: '' @ s_title @
                  ''\<newline>Video Type: '' @ s_videoType @
                  ''\<newline>Purpose: '' @ s_purpose @
                  ''\<newline>Key Concepts: '' @ s_keyConcepts @
                  ''\<newline>Justifications: '' @ s_justifications @
                  ''\<newline>Evaluation Goal: '' @ s_goal @
                  ''\<newline>\<newline>Metrics to evaluate:\<newline>\<newline>'' @ mtext @ ''\<newline>\<newline>'' @ instruction) \<and>
           (\<not> ToBoolean rt (title d) \<longrightarrow> s_title = ''Unknown Title'') \<and>
           (videoType d = Undefined \<longrightarrow> s_videoType = ''undefined'') \<and>
           (purpose d = Undefined \<longrightarrow> s_purpose = ''undefined'') \<and>
           (keyConcepts d = Undefined \<longrightarrow> s_keyConcepts = ''undefined'') \<and>
           (justifications d = Undefined \<longrightarrow> s_justifications = ''undefined'') \<and>
           (goal d = Undefined \<longrightarrow> s_goal = ''undefined'')"
proof -
  have "stringifiable (or_else rt (title d) (Str ''Unknown Title''))"
    using assms(1) by (simp add: renderable_def or_else_def)
  then obtain s2 where s2: "ToString rt (or_else rt (title d) (Str ''Unknown Title'')) = Inr s2"
    using ToString_total(1) by blast
  obtain s1 s3 s4 s5 s6 s7 where s:
    "ToString rt (url d) = Inr s1" "ToString rt (videoType d) = Inr s3"
    "ToString rt (purpose d) = Inr s4" "ToString rt (keyConcepts d) = Inr s5"
    "ToString rt (justifications d) = Inr s6" "ToString rt (goal d) = Inr s7"
    using assms(1) ToString_total(1)[of _ rt] unfolding renderable_def by metis
  obtain ls where ls: "map_numbered rt 0 ms = Inr ls"
    using map_numbered_total[OF assms(2)] by blast
  have info: "videoInfo rt d =
      Inr (''Video URL: '' @ s1 @ ''\<newline>Title: '' @ s2 @ ''\<newline>Video Type: '' @ s3 @
           ''\<newline>Purpose: '' @ s4 @ ''\<newline>Key Concepts: '' @ s5 @
           ''\<newline>Justifications: '' @ s6 @ ''\<newline>Evaluation Goal: '' @ s7)"
    using s s2 by (simp add: videoInfo_def)
  have prompt: "constructPrompt rt d ms =
      Inr (header @ ''\<newline>\<newline>'' @
           ''Video URL: '' @ s1 @ ''\<newline>Title: '' @ s2 @ ''\<newline>Video Type: '' @ s3 @
           ''\<newline>Purpose: '' @ s4 @ ''\<newline>Key Concepts: '' @ s5 @
           ''\<newline>Justifications: '' @ s6 @ ''\<newline>Evaluation Goal: '' @ s7 @
           ''\<newline>\<newline>Metrics to evaluate:\<newline>\<newline>'' @ join ''\<newline>'' ls @ ''\<newline>\<newline>'' @ instruction)"
    using info ls by (simp add: constructPrompt_def metricsText_def)
  have t: "\<not> ToBoolean rt (title d) \<longrightarrow> s2 = ''Unknown Title''"
    using s2 by (auto simp: or_else_def)
  have u: "videoType d = Undefined \<longrightarrow> s3 = ''undefined''"
    "purpose d = Undefined \<longrightarrow> s4 = ''undefined''"
    "keyConcepts d = Undefined \<longrightarrow> s5 = ''undefined''"
    "justifications d = Undefined \<longrightarrow> s6 = ''undefined''"
    "goal d = Undefined \<longrightarrow> s7 = ''undefined''"
    using s by auto
  have m: "metricsText rt ms = Inr (join ''\<newline>'' ls)"
    using ls by (simp add: metricsText_def)
  show ?thesis
    using s s2[unfolded or_else_def] m prompt t u by blast
qed

text \<open>
  The specification's example: the prompt for \<open>Pacing and speed of narration\<close> has the
  line \<open>1. Pacing and speed of narration\<close> and the title \<open>Unknown Title\<close>.
\<close>

lemma constructPrompt_labeled_lines_example:
  "renderable sample_details \<and> stringifiable (Str ''Pacing and speed of narration'' :: int jsval) \<and>
   constructPrompt ref_runtime sample_details [Str ''Pacing and speed of narration''] =
     Inr (header @
          ''\<newline>\<newline>Video URL: v1\<newline>Title: Unknown Title\<newline>Video Type: tutorial\<newline>Purpose: teach X\<newline>Key Concepts: undefined\<newline>Justifications: undefined\<newline>Evaluation Goal: undefined\<newline>\<newline>Metrics to evaluate:\<newline>\<newline>1. Pacing and speed of narration\<newline>\<newline>'' @
          instruction)"
proof -
  have r: "renderable sample_details"
    by (simp add: sample_details_def renderable_def)
  have m: "\<forall>m \<in> set [Str ''Pacing and speed of narration'' :: int jsval]. stringifiable m"
    by simp
  have mt: "metricsText ref_runtime [Str ''Pacing and speed of narration''] = Inr ''1. Pacing and speed of narration''"
    by code_simp
  show ?thesis
    using r mt constructPrompt_labeled_lines[OF r m, of ref_runtime]
    by (auto simp: sample_details_def)
qed

text \<open>
  Claim C6. The labeled lines stand in the fixed order and an absent field shows as
  \<open>undefined\<close>, as the layout above says. The title is looked up by the routes
  (\<open>server.js\<close>, lines 142 and 143): \<open>db[url] || 'Unknown Title'\<close>. With no stored
  title the lookup gives \<open>undefined\<close> for the url \<open>v1\<close>, and the title is
  \<open>Unknown Title\<close>. The lookup is a property read with a computed key, which also
  finds what every object inherits: for the url \<open>constructor\<close>, with no stored title
  either, it gives the function \<open>Object\<close>, which is truthy, and the prompt sent to the
  backend has the line \<open>Title: function Object() { [native code] }\<close> where a missing
  title is to show as \<open>Unknown Title\<close>.
\<close>

theorem missing_title_inherited_property:
  "readVideoDB ref_runtime empty_world = Inr (Obj [])
   \<and> lookup_title ref_runtime empty_world (Str ''v1'') = Inr (Str ''Unknown Title'')
   \<and> lookup_title ref_runtime empty_world (Str ''constructor'') =
       Inr (Builtin ''function Object() { [native code] }'')
   \<and> gemini_calls (snd (evaluate_metric ref_runtime (replies ''{}'') empty_world
        (Obj [(''url'', Str ''constructor''), (''metric'', Str ''Pacing and speed of narration'')]))) =
       [header @
        ''\<newline>\<newline>Video URL: constructor\<newline>Title: function Object() { [native code] }\<newline>Video Type: undefined\<newline>Purpose: undefined\<newline>Key Concepts: undefined\<newline>Justifications: undefined\<newline>Evaluation Goal: undefined\<newline>\<newline>Metrics to evaluate:\<newline>\<newline>1. Pacing and speed of narration\<newline>\<newline>'' @
        instruction]"
  by code_simp

text \<open>
  Claim C9. \<open>constructPrompt\<close> checks nothing about the list of metrics: with the
  empty list it still returns a prompt, for every request whose fields convert to strings.
  The section of the metrics is empty: after \<open>Metrics to evaluate:\<close> come four
  newlines and the closing instruction.
\<close>

theorem constructPrompt_empty_list:
  assumes "renderable d"
  shows "\<exists>info. videoInfo rt d = Inr info \<and>
           constructPrompt rt d [] =
             Inr (header @ ''\<newline>\<newline>'' @ info @
                  ''\<newline>\<newline>Metrics to evaluate:\<newline>\<newline>\<newline>\<newline>'' @ instruction)"
  using videoInfo_total[OF assms, of rt] by (auto simp: constructPrompt_def metricsText_def)

theorem constructPrompt_empty_list_witness:
  "renderable sample_details \<and>
   constructPrompt ref_runtime sample_details [] =
     Inr (header @
          ''\<newline>\<newline>Video URL: v1\<newline>Title: Unknown Title\<newline>Video Type: tutorial\<newline>Purpose: teach X\<newline>Key Concepts: undefined\<newline>Justifications: undefined\<newline>Evaluation Goal: undefined\<newline>\<newline>Metrics to evaluate:\<newline>\<newline>\<newline>\<newline>'' @
          instruction)"
proof -
  have r: "renderable sample_details"
    by (simp add: sample_details_def renderable_def)
  have i: "videoInfo ref_runtime sample_details = Inr ''Video URL: v1\<newline>Title: Unknown Title\<newline>Video Type: tutorial\<newline>Purpose: teach X\<newline>Key Concepts: undefined\<newline>Justifications: undefined\<newline>Evaluation Goal: undefined''"
    by code_simp
  show ?thesis
    using r i constructPrompt_empty_list[OF r, of ref_runtime] by auto
qed

subsection \<open>Extraction in the browser\<close>

lemma startsWith_iff: "startsWith s p \<longleftrightarrow> (\<exists>post. s = p @ post)"
  unfolding startsWith_def
  by (metis append_eq_conv_conj append_take_drop_id)

lemma str_includes_iff: "str_includes s p \<longleftrightarrow> (\<exists>pre post. s = pre @ p @ post)"
proof (induction s)
  case Nil
  then show ?case by (auto simp: startsWith_def)
next
  case (Cons x xs)
  show ?case
  proof
    assume "str_includes (x # xs) p"
    then consider "startsWith (x # xs) p" | "str_includes xs p" by auto
    then show "\<exists>pre post. x # xs = pre @ p @ post"
    proof cases
      case 1
      then show ?thesis using startsWith_iff[of "x # xs" p] by (metis append_Nil)
    next
      case 2
      then obtain pre post where "xs = pre @ p @ post" using Cons.IH by blast
      then have "x # xs = (x # pre) @ p @ post" by simp
      then show ?thesis by blast
    qed
  next
    assume "\<exists>pre post. x # xs = pre @ p @ post"
    then obtain pre post where e: "x # xs = pre @ p @ post" by blast
    show "str_includes (x # xs) p"
    proof (cases pre)
      case Nil
      then have "startsWith (x # xs) p"
        unfolding startsWith_iff using e by auto
      then show ?thesis by simp
    next
      case (Cons y ys)
      then have "xs = ys @ p @ post" using e by simp
      then show ?thesis using Cons.IH by auto
    qed
  qed
qed

text \<open>
  The search of \<open>renderMetricResult\<close> on entries of the documented kind: an entry is
  a hit exactly when its \<open>metric\<close> field is not empty and contains the name;
  \<open>find\<close> gives the first hit of a list, or \<open>undefined\<close>; a reply that is a list
  of entries, or holds one under \<open>results\<close> or \<open>metrics\<close>, is searched as that
  list; and what is shown for the entry found, or when none is found.
\<close>

lemma spec_contains_includes: "spec_contains s name \<longleftrightarrow> str_includes s name"
  by (simp add: spec_contains_def str_includes_iff)

lemma matches_metric_entry:
  "matches_metric rt metric (entry_of e) = Inr (fst e \<noteq> [] \<and> spec_contains (fst e) metric)"
  by (cases e) (simp add: matches_metric_def entry_of_def read_prop_def nullish_def spec_contains_includes)

lemma find_metric_none:
  "\<forall>e \<in> set es. \<not> (fst e \<noteq> [] \<and> spec_contains (fst e) metric) \<Longrightarrow>
   find_metric rt metric (map entry_of es) = Inr Undefined"
  by (induction es) (auto simp: matches_metric_entry)

lemma find_metric_first:
  "\<forall>e \<in> set before. \<not> (fst e \<noteq> [] \<and> spec_contains (fst e) metric) \<Longrightarrow>
   fst e \<noteq> [] \<and> spec_contains (fst e) metric \<Longrightarrow>
   find_metric rt metric (map entry_of (before @ e # after)) = Inr (entry_of e)"
  by (induction before) (auto simp: matches_metric_entry)

lemma find_entry_placed:
  "find_entry rt metric (placed pl es) = find_metric rt metric es"
  by (cases pl)
     (simp_all add: find_entry_def isArray_def call_find_def matches_metric_def read_prop_def nullish_def)

lemma render_found:
  assumes "find_entry rt metric p = Inr (entry_of (s, sc, f))" and "ToBoolean rt p"
  shows "renderMetricResult rt metric (payload_of raw p) =
     Inr (InnerHTML (Str (''<h3>'' @ metric @ ''</h3>Score: <strong>'' @ Number_toString rt sc @
                  ''</strong>\<newline>\<newline>Feedback:\<newline>'' @ f)))"
  using assms
  by (simp add: renderMetricResult_def payload_of_def entry_of_def read_prop_def nullish_def Let_def)

lemma render_not_found:
  assumes "find_entry rt metric p = Inr found" and "\<not> ToBoolean rt found"
  shows "renderMetricResult rt metric (payload_of raw p) =
     Inr (TextContent (or_else rt (Str raw) (Str (JSON_stringify rt (payload_of raw p) 2))))"
  using assms
  by (simp add: renderMetricResult_def payload_of_def Let_def)

lemma placed_truthy: "ToBoolean rt (placed pl es)"
  by (cases pl) simp_all

lemma find_entry_single:
  "find_entry rt metric (Obj [(''metric'', Str s), (''score'', sc), (''feedback'', fb)]) =
     Inr (if s \<noteq> [] \<and> spec_contains s metric
          then Obj [(''metric'', Str s), (''score'', sc), (''feedback'', fb)] else Null)"
  by (simp add: find_entry_def isArray_def matches_metric_def read_prop_def nullish_def
        spec_contains_includes)

text \<open>
  Claim C5. A requested metric name matches an entry when the name occurs in the entry's
  \<open>metric\<close> field as a substring, code unit by code unit, so that upper and lower case
  differ; the field need not equal the name, and no other entry matches. For a reply
  that is one entry, \<open>renderMetricResult\<close> shows the entry's score and feedback when
  its \<open>metric\<close> field is not empty and contains the name, and shows the raw reply
  when it does not. For a reply that is a list of entries, or holds the list under
  \<open>results\<close> or \<open>metrics\<close>, it shows the first entry whose field contains the
  name, whatever follows it, and the raw reply when no entry does. For the name
  \<open>Clarity of problem articulation\<close> and the entry
  \<open>Clarity of problem articulation (partial)\<close> with score 7 and feedback
  \<open>Good but rushed.\<close> it shows the score 7. The same name in lower case is not
  contained in the name itself.
\<close>

theorem renderMetricResult_substring_match:
  "(str_includes s metric \<longleftrightarrow> spec_contains s metric)
   \<and> (matches_metric rt metric (Obj [(''metric'', Str s), (''score'', sc), (''feedback'', fb)])
        = Inr (s \<noteq> [] \<and> spec_contains s metric))
   \<and> (s \<noteq> [] \<and> spec_contains s metric \<and>
       ToString rt sc = Inr s_score \<and> ToString rt fb = Inr s_feedback \<longrightarrow>
       renderMetricResult rt metric
         (payload_of raw (Obj [(''metric'', Str s), (''score'', sc), (''feedback'', fb)]))
         = Inr (InnerHTML (Str (''<h3>'' @ metric @ ''</h3>Score: <strong>'' @ s_score @
                  ''</strong>\<newline>\<newline>Feedback:\<newline>'' @ s_feedback))))
   \<and> (\<not> (s \<noteq> [] \<and> spec_contains s metric) \<longrightarrow>
       renderMetricResult rt metric
         (payload_of raw (Obj [(''metric'', Str s), (''score'', sc), (''feedback'', fb)]))
         = Inr (TextContent (or_else rt (Str raw)
                  (Str (JSON_stringify rt
                     (payload_of raw (Obj [(''metric'', Str s), (''score'', sc), (''feedback'', fb)])) 2)))))
   \<and> ((\<forall>e \<in> set before. \<not> (fst e \<noteq> [] \<and> spec_contains (fst e) metric)) \<and>
       m \<noteq> [] \<and> spec_contains m metric \<longrightarrow>
       renderMetricResult rt metric
         (payload_of raw (placed pl (map entry_of (before @ (m, n, f) # after))))
         = Inr (InnerHTML (Str (''<h3>'' @ metric @ ''</h3>Score: <strong>'' @ Number_toString rt n @
                  ''</strong>\<newline>\<newline>Feedback:\<newline>'' @ f))))
   \<and> ((\<forall>e \<in> set es. \<not> (fst e \<noteq> [] \<and> spec_contains (fst e) metric)) \<longrightarrow>
       renderMetricResult rt metric (payload_of raw (placed pl (map entry_of es)))
         = Inr (TextContent (or_else rt (Str raw)
                  (Str (JSON_stringify rt (payload_of raw (placed pl (map entry_of es))) 2)))))
   \<and> (Number_toString rt seven = ''7'' \<longrightarrow>
       renderMetricResult rt ''Clarity of problem articulation''
         (payload_of raw (Obj [(''metric'', Str ''Clarity of problem articulation (partial)''),
                               (''score'', Num seven), (''feedback'', Str ''Good but rushed.'')]))
         = Inr (InnerHTML (Str ''<h3>Clarity of problem articulation</h3>Score: <strong>7</strong>\<newline>\<newline>Feedback:\<newline>Good but rushed.'')))
   \<and> \<not> spec_contains ''Clarity of problem articulation'' ''clarity of problem articulation''"
proof (intro conjI impI)
  show "str_includes s metric \<longleftrightarrow> spec_contains s metric"
    by (simp add: spec_contains_includes)
next
  show "matches_metric rt metric (Obj [(''metric'', Str s), (''score'', sc), (''feedback'', fb)])
        = Inr (s \<noteq> [] \<and> spec_contains s metric)"
    by (simp add: matches_metric_def read_prop_def nullish_def spec_contains_includes)
next
  assume a: "s \<noteq> [] \<and> spec_contains s metric \<and>
       ToString rt sc = Inr s_score \<and> ToString rt fb = Inr s_feedback"
  then show "renderMetricResult rt metric
         (payload_of raw (Obj [(''metric'', Str s), (''score'', sc), (''feedback'', fb)]))
         = Inr (InnerHTML (Str (''<h3>'' @ metric @ ''</h3>Score: <strong>'' @ s_score @
                  ''</strong>\<newline>\<newline>Feedback:\<newline>'' @ s_feedback)))"
    by (simp add: renderMetricResult_def payload_of_def find_entry_single read_prop_def nullish_def Let_def)
next
  assume "\<not> (s \<noteq> [] \<and> spec_contains s metric)"
  then have "find_entry rt metric (Obj [(''metric'', Str s), (''score'', sc), (''feedback'', fb)]) = Inr Null"
    by (simp add: find_entry_single)
  then show "renderMetricResult rt metric
         (payload_of raw (Obj [(''metric'', Str s), (''score'', sc), (''feedback'', fb)]))
         = Inr (TextContent (or_else rt (Str raw)
                  (Str (JSON_stringify rt
                     (payload_of raw (Obj [(''metric'', Str s), (''score'', sc), (''feedback'', fb)])) 2))))"
    by (rule render_not_found) simp
next
  assume a: "(\<forall>e \<in> set before. \<not> (fst e \<noteq> [] \<and> spec_contains (fst e) metric)) \<and>
       m \<noteq> [] \<and> spec_contains m metric"
  have "find_metric rt metric (map entry_of (before @ (m, n, f) # after)) = Inr (entry_of (m, n, f))"
    using a by (intro find_metric_first) simp_all
  then have "find_entry rt metric (placed pl (map entry_of (before @ (m, n, f) # after))) =
      Inr (entry_of (m, n, f))"
    by (simp only: find_entry_placed)
  then show "renderMetricResult rt metric
         (payload_of raw (placed pl (map entry_of (before @ (m, n, f) # after))))
         = Inr (InnerHTML (Str (''<h3>'' @ metric @ ''</h3>Score: <strong>'' @ Number_toString rt n @
                  ''</strong>\<newline>\<newline>Feedback:\<newline>'' @ f)))"
    by (rule render_found) (rule placed_truthy)
next
  assume "\<forall>e \<in> set es. \<not> (fst e \<noteq> [] \<and> spec_contains (fst e) metric)"
  then have "find_metric rt metric (map entry_of es) = Inr Undefined"
    by (rule find_metric_none)
  then have "find_entry rt metric (placed pl (map entry_of es)) = Inr Undefined"
    by (simp only: find_entry_placed)
  then show "renderMetricResult rt metric (payload_of raw (placed pl (map entry_of es)))
         = Inr (TextContent (or_else rt (Str raw)
                  (Str (JSON_stringify rt (payload_of raw (placed pl (map entry_of es))) 2))))"
    by (rule render_not_found) simp
next
  assume n: "Number_toString rt seven = ''7''"
  have "spec_contains ''Clarity of problem articulation (partial)'' ''Clarity of problem articulation''"
    by (simp add: spec_contains_includes startsWith_def)
  then show "renderMetricResult rt ''Clarity of problem articulation''
         (payload_of raw (Obj [(''metric'', Str ''Clarity of problem articulation (partial)''),
                               (''score'', Num seven), (''feedback'', Str ''Good but rushed.'')]))
         = Inr (InnerHTML (Str ''<h3>Clarity of problem articulation</h3>Score: <strong>7</strong>\<newline>\<newline>Feedback:\<newline>Good but rushed.''))"
    using n
    by (simp add: renderMetricResult_def payload_of_def find_entry_single read_prop_def nullish_def Let_def)
next
  show "\<not> spec_contains ''Clarity of problem articulation'' ''clarity of problem articulation''"
    by (simp add: spec_contains_includes startsWith_def)
qed

text \<open>
  In the reference runtime the reply text of the example parses to that entry, which is
  found. An entry for another metric is not found under the requested name, and the raw
  reply is shown. In a list the second entry is the first that contains the name; a list
  under \<open>results\<close> without such an entry gives the raw reply.
\<close>

theorem renderMetricResult_substring_match_witness:
  "Number_toString ref_runtime 7 = ''7''
   \<and> JSON_parse ref_runtime ''{\"metric\":\"Clarity of problem articulation (partial)\",\"score\":7,\"feedback\":\"Good but rushed.\"}''
       = Inr (Obj [(''metric'', Str ''Clarity of problem articulation (partial)''),
                   (''score'', Num 7), (''feedback'', Str ''Good but rushed.'')])
   \<and> renderMetricResult ref_runtime ''Clarity of problem articulation''
         (payload_of ''{\"metric\":\"Clarity of problem articulation (partial)\",\"score\":7,\"feedback\":\"Good but rushed.\"}''
            (Obj [(''metric'', Str ''Clarity of problem articulation (partial)''),
                  (''score'', Num 7), (''feedback'', Str ''Good but rushed.'')]))
         = Inr (InnerHTML (Str ''<h3>Clarity of problem articulation</h3>Score: <strong>7</strong>\<newline>\<newline>Feedback:\<newline>Good but rushed.''))
   \<and> \<not> spec_contains ''Clarity of problem articulation'' ''Pacing and speed of narration''
   \<and> renderMetricResult ref_runtime ''Pacing and speed of narration''
         (payload_of ''the reply''
            (Obj [(''metric'', Str ''Clarity of problem articulation''),
                  (''score'', Num 7), (''feedback'', Str ''Good but rushed.'')]))
         = Inr (TextContent (Str ''the reply''))
   \<and> \<not> spec_contains ''Pacing and speed of narration'' ''Clarity of problem articulation''
   \<and> spec_contains ''Clarity of problem articulation (partial)'' ''Clarity of problem articulation''
   \<and> renderMetricResult ref_runtime ''Clarity of problem articulation''
         (payload_of ''the reply''
            (Arr [entry_of (''Pacing and speed of narration'', 5, ''Slow down.''),
                  entry_of (''Clarity of problem articulation (partial)'', 7, ''Good but rushed.''),
                  entry_of (''Clarity of problem articulation'', 9, ''Clear.'')]))
         = Inr (InnerHTML (Str ''<h3>Clarity of problem articulation</h3>Score: <strong>7</strong>\<newline>\<newline>Feedback:\<newline>Good but rushed.''))
   \<and> renderMetricResult ref_runtime ''Clarity of problem articulation''
         (payload_of ''the reply''
            (Obj [(''results'', Arr [entry_of (''Pacing and speed of narration'', 5, ''Slow down.'')])]))
         = Inr (TextContent (Str ''the reply''))"
proof -
  have n: "Number_toString ref_runtime 7 = ''7''"
    by code_simp
  have p: "JSON_parse ref_runtime ''{\"metric\":\"Clarity of problem articulation (partial)\",\"score\":7,\"feedback\":\"Good but rushed.\"}''
       = Inr (Obj [(''metric'', Str ''Clarity of problem articulation (partial)''),
                   (''score'', Num 7), (''feedback'', Str ''Good but rushed.'')])"
    by code_simp
  have c1: "\<not> spec_contains ''Clarity of problem articulation'' ''Pacing and speed of narration''"
    by (simp add: spec_contains_includes startsWith_def)
  have c2: "\<not> spec_contains ''Pacing and speed of narration'' ''Clarity of problem articulation''"
    by (simp add: spec_contains_includes startsWith_def)
  have c3: "spec_contains ''Clarity of problem articulation (partial)'' ''Clarity of problem articulation''"
    by (simp add: spec_contains_includes startsWith_def)
  note hit = renderMetricResult_substring_match[where rt = ref_runtime
      and metric = "''Clarity of problem articulation''" and seven = 7
      and raw = "''{\"metric\":\"Clarity of problem articulation (partial)\",\"score\":7,\"feedback\":\"Good but rushed.\"}''"]
  note miss = renderMetricResult_substring_match[where rt = ref_runtime
      and metric = "''Pacing and speed of narration''" and s = "''Clarity of problem articulation''"
      and sc = "Num 7" and fb = "Str ''Good but rushed.''" and raw = "''the reply''"]
  note lists = renderMetricResult_substring_match[where rt = ref_runtime
      and metric = "''Clarity of problem articulation''" and raw = "''the reply''"
      and before = "[(''Pacing and speed of narration'', 5, ''Slow down.'')]"
      and m = "''Clarity of problem articulation (partial)''" and n = 7 and f = "''Good but rushed.''"
      and after = "[(''Clarity of problem articulation'', 9, ''Clear.'')]" and pl = AsList]
  note none = renderMetricResult_substring_match[where rt = ref_runtime
      and metric = "''Clarity of problem articulation''" and raw = "''the reply''"
      and es = "[(''Pacing and speed of narration'', 5, ''Slow down.'')]" and pl = UnderResults]
  have a: "renderMetricResult ref_runtime ''Clarity of problem articulation''
         (payload_of ''{\"metric\":\"Clarity of problem articulation (partial)\",\"score\":7,\"feedback\":\"Good but rushed.\"}''
            (Obj [(''metric'', Str ''Clarity of problem articulation (partial)''),
                  (''score'', Num 7), (''feedback'', Str ''Good but rushed.'')]))
         = Inr (InnerHTML (Str ''<h3>Clarity of problem articulation</h3>Score: <strong>7</strong>\<newline>\<newline>Feedback:\<newline>Good but rushed.''))"
    using n hit by blast
  have b: "renderMetricResult ref_runtime ''Pacing and speed of narration''
         (payload_of ''the reply''
            (Obj [(''metric'', Str ''Clarity of problem articulation''),
                  (''score'', Num 7), (''feedback'', Str ''Good but rushed.'')]))
         = Inr (TextContent (Str ''the reply''))"
    using c1 miss by (simp add: or_else_def)
  have c: "renderMetricResult ref_runtime ''Clarity of problem articulation''
         (payload_of ''the reply''
            (Arr [entry_of (''Pacing and speed of narration'', 5, ''Slow down.''),
                  entry_of (''Clarity of problem articulation (partial)'', 7, ''Good but rushed.''),
                  entry_of (''Clarity of problem articulation'', 9, ''Clear.'')]))
         = Inr (InnerHTML (Str ''<h3>Clarity of problem articulation</h3>Score: <strong>7</strong>\<newline>\<newline>Feedback:\<newline>Good but rushed.''))"
    using c2 c3 n lists by simp
  have d: "renderMetricResult ref_runtime ''Clarity of problem articulation''
         (payload_of ''the reply''
            (Obj [(''results'', Arr [entry_of (''Pacing and speed of narration'', 5, ''Slow down.'')])]))
         = Inr (TextContent (Str ''the reply''))"
    using c2 none by (simp add: or_else_def)
  show ?thesis
    using n p a b c d c1 c2 c3 by blast
qed

lemma entries_html_entries:
  "entries_html rt (map entry_of es) = Inr (concat (map (entry_block rt) es))"
  by (induction es)
     (auto simp: entry_html_def entry_of_def entry_block_def read_prop_def nullish_def)

lemma items_html_strings:
  "items_html rt (map Str cs) = Inr (map (\<lambda>c. ''<li>'' @ c @ ''</li>'') cs)"
  by (induction cs) auto

lemma join_empty_sep: "join [] ls = concat ls"
  by (induction "[] :: string" ls rule: join.induct) auto

lemma map_of_zip_None:
  "k \<notin> set keys \<Longrightarrow> map_of (zip keys vs) k = None"
  by (auto simp: map_of_eq_None_iff dest: set_zip_leftD)

lemma own_prop_improvements:
  "own_prop (Obj (improvements_field ci) :: 'n jsval) ''common_improvements'' =
     (case ci of None \<Rightarrow> Undefined | Some cs \<Rightarrow> Arr (map Str cs))"
  by (simp add: improvements_field_def split: option.split)

lemma improvements_field_other:
  "k \<noteq> ''common_improvements'' \<Longrightarrow> map_of (improvements_field ci) k = None"
  by (simp add: improvements_field_def split: option.split)

lemma filter_entries:
  "list_all (\<lambda>e. fst e \<noteq> [] \<and> Number_toBoolean rt (fst (snd e))) es \<Longrightarrow>
   filter (result_like rt) (map entry_of es) = map entry_of es"
  by (induction es) (auto simp: result_like_def entry_of_def)

lemma filter_improvements:
  "filter (result_like rt) (map snd (improvements_field ci)) = []"
  by (simp add: improvements_field_def result_like_def split: option.split)

lemma metricsArr_of_documented:
  assumes "documented rt sh es"
  shows "metricsArr_of rt (reply_value sh es ci) = Arr (map entry_of es)"
proof (cases sh)
  case (UnderKey k)
  then have "k = ''metrics'' \<or> k = ''results''" using assms by simp
  then show ?thesis
  proof
    assume "k = ''metrics''"
    then show ?thesis
      using UnderKey by (simp add: metricsArr_of_def isArray_def)
  next
    assume "k = ''results''"
    then show ?thesis
      using UnderKey by (simp add: metricsArr_of_def isArray_def improvements_field_other)
  qed
next
  case (Direct keys)
  then have d: "length keys = length es" "''metrics'' \<notin> set keys" "''results'' \<notin> set keys"
    and l: "list_all (\<lambda>e. fst e \<noteq> [] \<and> Number_toBoolean rt (fst (snd e))) es"
    using assms by auto
  have m: "map_of (zip keys (map entry_of es) @ improvements_field ci) ''metrics'' = None"
    using d(2) by (simp add: map_of_zip_None improvements_field_other map_add_def)
  have r: "map_of (zip keys (map entry_of es) @ improvements_field ci) ''results'' = None"
    using d(3) by (simp add: map_of_zip_None improvements_field_other map_add_def)
  have v: "map snd (zip keys (map entry_of es)) = map entry_of es"
    using d(1) by (simp add: map_snd_zip)
  show ?thesis
    using Direct m r v filter_entries[OF l] filter_improvements[of rt ci]
    by (simp add: metricsArr_of_def isArray_def Object_values_def map_add_def)
qed

lemma scores_html_entries:
  "scores_html rt (Arr (map entry_of es)) = Inr (scores_block rt es)"
  by (simp add: scores_html_def length_truthy_def scores_block_def entries_html_entries)

lemma improvements_html_documented:
  assumes "documented rt sh es"
  shows "improvements_html rt (reply_value sh es ci) = Inr (improvements_block ci)"
proof -
  have "own_prop (reply_value sh es ci) ''common_improvements'' =
          (case ci of None \<Rightarrow> Undefined | Some cs \<Rightarrow> Arr (map Str cs))"
  proof (cases sh)
    case (UnderKey k)
    then show ?thesis
      using assms own_prop_improvements[of ci] by auto
  next
    case (Direct keys)
    then have "''common_improvements'' \<notin> set keys" using assms by simp
    then show ?thesis
      using Direct own_prop_improvements[of ci]
      by (simp add: map_of_zip_None map_add_def)
  qed
  then show ?thesis
    by (simp add: improvements_html_def improvements_block_def items_html_strings join_empty_sep
          split: option.split)
qed

text \<open>
  Claim C3. Take a reply whose text parses to a value of the documented shape, with the
  entries \<open>es\<close> and the suggestions \<open>ci\<close>. Then normalization gives that value, the
  route passes it on as \<open>parsed\<close>, and the extraction of \<open>renderAllResults\<close> gives
  exactly the entries \<open>es\<close>, as many as there are and with their metric, score and
  feedback, in order; the page shows one block for each entry and the suggestions as the
  items of one list, in order. Without the field \<open>common_improvements\<close> nothing is
  shown for it and nothing is thrown.
\<close>

theorem normalize_round_trip:
  assumes "documented rt sh es" and "JSON_parse rt raw = Inr (reply_value sh es ci)"
  shows "respond rt raw =
           Inr (res_json 200 (Obj [(''ok'', Bool True), (''raw'', Str raw),
                                   (''parsed'', reply_value sh es ci)]))
       \<and> metricsArr_of rt (reply_value sh es ci) = Arr (map entry_of es)
       \<and> length (map entry_of es :: 'n jsval list) = length es
       \<and> scores_html rt (metricsArr_of rt (reply_value sh es ci)) = Inr (scores_block rt es)
       \<and> improvements_html rt (reply_value sh es ci) = Inr (improvements_block ci)
       \<and> renderAllResults rt (Obj [(''ok'', Bool True), (''raw'', Str raw),
                                    (''parsed'', reply_value sh es ci)]) =
           Inr (InnerHTML
                  (if scores_block rt es @ improvements_block ci = []
                   then or_else rt (Str raw) (Str (JSON_stringify rt (reply_value sh es ci) 2))
                   else Str (scores_block rt es @ improvements_block ci)))"
proof -
  have t: "ToBoolean rt (reply_value sh es ci)"
    by (cases sh) simp_all
  have p: "tryParseJSON rt raw = Inr (reply_value sh es ci)"
    using assms(2) by (simp add: tryParseJSON_def)
  have 1: "respond rt raw =
           Inr (res_json 200 (Obj [(''ok'', Bool True), (''raw'', Str raw),
                                   (''parsed'', reply_value sh es ci)]))"
    using p t by (simp add: respond_def)
  note 2 = metricsArr_of_documented[OF assms(1), of ci]
  have 3: "scores_html rt (metricsArr_of rt (reply_value sh es ci)) = Inr (scores_block rt es)"
    by (simp add: 2 scores_html_entries)
  note 4 = improvements_html_documented[OF assms(1), of ci]
  have 5: "renderAllResults rt (Obj [(''ok'', Bool True), (''raw'', Str raw),
                                    (''parsed'', reply_value sh es ci)]) =
           Inr (InnerHTML
                  (if scores_block rt es @ improvements_block ci = []
                   then or_else rt (Str raw) (Str (JSON_stringify rt (reply_value sh es ci) 2))
                   else Str (scores_block rt es @ improvements_block ci)))"
    using t 3 4 by (simp add: renderAllResults_def Let_def)
  show ?thesis
    using 1 2 3 4 5 by simp
qed

text \<open>Two entries as fields of the reply and two suggestions, in the reference runtime.\<close>

theorem normalize_round_trip_witness:
  "documented ref_runtime (Direct [''m1'', ''m2'']) [(''A'', 7, ''fa''), (''B'', 9, ''fb'')]
   \<and> JSON_parse ref_runtime
        ''{\"m1\":{\"metric\":\"A\",\"score\":7,\"feedback\":\"fa\"},\"m2\":{\"metric\":\"B\",\"score\":9,\"feedback\":\"fb\"},\"common_improvements\":[\"x\",\"y\"]}''
       = Inr (reply_value (Direct [''m1'', ''m2'']) [(''A'', 7, ''fa''), (''B'', 9, ''fb'')] (Some [''x'', ''y'']))
   \<and> metricsArr_of ref_runtime
        (reply_value (Direct [''m1'', ''m2'']) [(''A'', 7, ''fa''), (''B'', 9, ''fb'')] (Some [''x'', ''y'']))
       = Arr [Obj [(''metric'', Str ''A''), (''score'', Num 7), (''feedback'', Str ''fa'')],
              Obj [(''metric'', Str ''B''), (''score'', Num 9), (''feedback'', Str ''fb'')]]
   \<and> renderAllResults ref_runtime
        (Obj [(''ok'', Bool True),
              (''raw'', Str ''{\"m1\":{\"metric\":\"A\",\"score\":7,\"feedback\":\"fa\"},\"m2\":{\"metric\":\"B\",\"score\":9,\"feedback\":\"fb\"},\"common_improvements\":[\"x\",\"y\"]}''),
              (''parsed'', reply_value (Direct [''m1'', ''m2'']) [(''A'', 7, ''fa''), (''B'', 9, ''fb'')] (Some [''x'', ''y'']))])
       = Inr (InnerHTML (Str ''<div class=\"all-scores\"><h3>A</h3><strong>Score: 7</strong><div>fa</div><hr><h3>B</h3><strong>Score: 9</strong><div>fb</div><hr></div><h3>Common Improvement Suggestions</h3><ul><li>x</li><li>y</li></ul>''))"
proof -
  have d: "documented ref_runtime (Direct [''m1'', ''m2'']) [(''A'', 7, ''fa''), (''B'', 9, ''fb'')]"
    by code_simp
  have p: "JSON_parse ref_runtime
        ''{\"m1\":{\"metric\":\"A\",\"score\":7,\"feedback\":\"fa\"},\"m2\":{\"metric\":\"B\",\"score\":9,\"feedback\":\"fb\"},\"common_improvements\":[\"x\",\"y\"]}''
       = Inr (reply_value (Direct [''m1'', ''m2'']) [(''A'', 7, ''fa''), (''B'', 9, ''fb'')] (Some [''x'', ''y'']))"
    by code_simp
  have s: "scores_block ref_runtime [(''A'', 7, ''fa''), (''B'', 9, ''fb'')] =
      ''<div class=\"all-scores\"><h3>A</h3><strong>Score: 7</strong><div>fa</div><hr><h3>B</h3><strong>Score: 9</strong><div>fb</div><hr></div>''"
    by code_simp
  have i: "improvements_block (Some [''x'', ''y'']) =
      ''<h3>Common Improvement Suggestions</h3><ul><li>x</li><li>y</li></ul>''"
    by code_simp
  show ?thesis
    using d p normalize_round_trip[OF d p]
    by (simp add: s i entry_of_def)
qed

subsection \<open>The routes\<close>

lemma evaluate_all_try_cases:
  assumes "evaluate_all_try rt backend w body = (r, w')"
  shows "(w' = w \<and> (nullish body \<or> \<not> ToBoolean rt (own_prop body ''url'') \<or> (\<exists>e. r = Inl e)))
       \<or> (\<exists>prompt. w' = w\<lparr>gemini_calls := gemini_calls w @ [prompt]\<rparr> \<and>
             r = (case backend prompt of Inl err \<Rightarrow> Inl err | Inr raw \<Rightarrow> respond rt raw))"
  using assms
  by (auto simp: evaluate_all_try_def Let_def callGemini_def split: if_splits sum.splits prod.splits)

lemma evaluate_metric_try_cases:
  assumes "evaluate_metric_try rt backend w body = (r, w')"
  shows "(w' = w \<and> (nullish body \<or> \<not> ToBoolean rt (own_prop body ''url'')
                     \<or> \<not> ToBoolean rt (own_prop body ''metric'') \<or> (\<exists>e. r = Inl e)))
       \<or> (\<exists>prompt. w' = w\<lparr>gemini_calls := gemini_calls w @ [prompt]\<rparr> \<and>
             r = (case backend prompt of Inl err \<Rightarrow> Inl err | Inr raw \<Rightarrow> respond rt raw))"
  using assms
  by (auto simp: evaluate_metric_try_def Let_def callGemini_def split: if_splits sum.splits prod.splits)

lemma evaluate_all_files: "files (snd (evaluate_all rt backend w body)) = files w"
proof -
  obtain r w' where e: "evaluate_all_try rt backend w body = (r, w')"
    by (cases "evaluate_all_try rt backend w body")
  from evaluate_all_try_cases[OF e] have "files w' = files w" by auto
  then show ?thesis using e by (simp add: evaluate_all_def split: sum.split)
qed

lemma evaluate_metric_files: "files (snd (evaluate_metric rt backend w body)) = files w"
proof -
  obtain r w' where e: "evaluate_metric_try rt backend w body = (r, w')"
    by (cases "evaluate_metric_try rt backend w body")
  from evaluate_metric_try_cases[OF e] have "files w' = files w" by auto
  then show ?thesis using e by (simp add: evaluate_metric_def split: sum.split)
qed

lemma lambda_get_title_world: "snd (lambda_get_title rt w ev) = w"
  by (simp add: lambda_get_title_def split: option.split)

lemma lambda_evaluate_metric_files:
  "files (snd (lambda_evaluate_metric rt backend w ev)) = files w"
  by (simp add: lambda_evaluate_metric_def Let_def callGemini_def split: sum.split)

lemma lambda_evaluate_all_files:
  "files (snd (lambda_evaluate_all rt backend w ev)) = files w"
  by (simp add: lambda_evaluate_all_def Let_def callGemini_def split: sum.split)

lemma handler_files:
  assumes "\<not> (startsWith (str_or (ev_path ev) ''/'') ''/video-title'' \<and>
              str_or (ev_httpMethod ev) (str_or (ev_http_method ev) ''GET'') = ''POST'')"
  shows "files (snd (handler rt backend w ev)) = files w"
proof -
  let ?route = "str_or (ev_path ev) ''/''"
  let ?verb = "str_or (ev_httpMethod ev) (str_or (ev_http_method ev) ''GET'')"
  have "files (snd (handler_try rt backend w ev ?route ?verb)) = files w"
    by (simp add: handler_try_def assms lambda_get_title_world lambda_evaluate_metric_files
          lambda_evaluate_all_files)
  then show ?thesis
    by (auto simp: handler_def Let_def split: prod.splits sum.splits)
qed

lemma startsWith_routes:
  "startsWith p ''/evaluate-metric'' \<or> startsWith p ''/evaluate-all'' \<Longrightarrow>
   \<not> startsWith p ''/video-title''"
  by (auto simp: startsWith_iff)


lemma respond_unparsed:
  "tryParseJSON rt raw = Inr v \<Longrightarrow> \<not> ToBoolean rt v \<Longrightarrow>
   respond rt raw = Inr (res_json 200 (Obj [(''ok'', Bool True), (''raw'', Str raw)]))"
  by (simp add: respond_def)

lemma respond_returns: "\<exists>res. respond rt raw = Inr res"
proof -
  obtain v where "tryParseJSON rt raw = Inr v"
    using tryParseJSON_returns by blast
  then show ?thesis
    by (cases "ToBoolean rt v") (simp_all add: respond_def)
qed

lemma evaluate_all_reply:
  assumes "gemini_calls (snd (evaluate_all rt backend w body)) = gemini_calls w @ [prompt]"
    and "backend prompt = Inr raw"
  shows "Inr (fst (evaluate_all rt backend w body)) = respond rt raw"
proof -
  obtain r w' where e: "evaluate_all_try rt backend w body = (r, w')"
    by (cases "evaluate_all_try rt backend w body")
  have w': "snd (evaluate_all rt backend w body) = w'"
    using e by (simp add: evaluate_all_def split: sum.split)
  obtain res where res: "respond rt raw = Inr res"
    using respond_returns by blast
  from evaluate_all_try_cases[OF e] assms w' have "r = respond rt raw"
    by auto
  then show ?thesis
    using e res by (simp add: evaluate_all_def)
qed

lemma evaluate_metric_reply:
  assumes "gemini_calls (snd (evaluate_metric rt backend w body)) = gemini_calls w @ [prompt]"
    and "backend prompt = Inr raw"
  shows "Inr (fst (evaluate_metric rt backend w body)) = respond rt raw"
proof -
  obtain r w' where e: "evaluate_metric_try rt backend w body = (r, w')"
    by (cases "evaluate_metric_try rt backend w body")
  have w': "snd (evaluate_metric rt backend w body) = w'"
    using e by (simp add: evaluate_metric_def split: sum.split)
  obtain res where res: "respond rt raw = Inr res"
    using respond_returns by blast
  from evaluate_metric_try_cases[OF e] assms w' have "r = respond rt raw"
    by auto
  then show ?thesis
    using e res by (simp add: evaluate_metric_def)
qed

lemma evaluate_all_missing:
  assumes "\<not> ToBoolean rt (own_prop body ''url'')"
  shows "evaluate_all rt backend w body =
           (if nullish body
            then res_json 500 (Obj [(''error'', Str (message_or (TypeError ''Cannot destructure req.body'') ''Evaluation failed''))])
            else res_json 400 (Obj [(''error'', Str ''Missing url'')]), w)"
  using assms by (simp add: evaluate_all_def evaluate_all_try_def Let_def)

lemma evaluate_metric_missing:
  assumes "\<not> ToBoolean rt (own_prop body ''url'') \<or> \<not> ToBoolean rt (own_prop body ''metric'')"
  shows "evaluate_metric rt backend w body =
           (if nullish body
            then res_json 500 (Obj [(''error'', Str (message_or (TypeError ''Cannot destructure req.body'') ''Evaluation failed''))])
            else res_json 400 (Obj [(''error'', Str ''Missing url or metric'')]), w)"
  using assms by (auto simp: evaluate_metric_def evaluate_metric_try_def Let_def)

text \<open>
  Claim C7. An evaluation request whose \<open>url\<close> is missing, or falsy, gets the
  response 400 from both Express routes, and so does a single-metric request whose
  \<open>metric\<close> is missing. The world after the request is the world before it: no prompt
  was sent to the backend and no file was touched. Here \<open>req.body\<close> is the body that
  \<open>express.json()\<close> parsed, an object; were it \<open>undefined\<close>, the destructuring
  would throw and the response would be 500, still with no call to the backend.
\<close>

theorem missing_fields_rejected_before_backend:
  "(\<not> ToBoolean rt (own_prop body ''url'') \<longrightarrow>
      snd (evaluate_all rt backend w body) = w \<and> snd (evaluate_metric rt backend w body) = w)
   \<and> (\<not> ToBoolean rt (own_prop body ''metric'') \<longrightarrow>
      snd (evaluate_metric rt backend w body) = w)
   \<and> (\<not> nullish body \<and> \<not> ToBoolean rt (own_prop body ''url'') \<longrightarrow>
      fst (evaluate_all rt backend w body) = res_json 400 (Obj [(''error'', Str ''Missing url'')]))
   \<and> (\<not> nullish body \<and>
       (\<not> ToBoolean rt (own_prop body ''url'') \<or> \<not> ToBoolean rt (own_prop body ''metric'')) \<longrightarrow>
      fst (evaluate_metric rt backend w body) =
        res_json 400 (Obj [(''error'', Str ''Missing url or metric'')]))"
  using evaluate_all_missing[of rt body backend w] evaluate_metric_missing[of rt body backend w]
  by auto

text \<open>A body with a metric and no url, at both routes.\<close>

theorem missing_fields_rejected_before_backend_witness:
  "\<not> nullish body_without_url
   \<and> \<not> ToBoolean ref_runtime (own_prop body_without_url ''url'')
   \<and> evaluate_all ref_runtime (replies ''{}'') empty_world body_without_url =
       (res_json 400 (Obj [(''error'', Str ''Missing url'')]), empty_world)
   \<and> evaluate_metric ref_runtime (replies ''{}'') empty_world body_without_url =
       (res_json 400 (Obj [(''error'', Str ''Missing url or metric'')]), empty_world)
   \<and> gemini_calls (snd (evaluate_metric ref_runtime (replies ''{}'') empty_world body_without_url)) = []"
proof -
  have n: "\<not> nullish body_without_url"
    by (simp add: body_without_url_def nullish_def)
  have u: "\<not> ToBoolean ref_runtime (own_prop body_without_url ''url'')"
    by (simp add: body_without_url_def)
  note m = missing_fields_rejected_before_backend[of ref_runtime body_without_url "replies ''{}''" empty_world]
  have a: "evaluate_all ref_runtime (replies ''{}'') empty_world body_without_url =
       (res_json 400 (Obj [(''error'', Str ''Missing url'')]), empty_world)"
    using n u m by (simp add: prod_eq_iff)
  have b: "evaluate_metric ref_runtime (replies ''{}'') empty_world body_without_url =
       (res_json 400 (Obj [(''error'', Str ''Missing url or metric'')]), empty_world)"
    using n u m by (simp add: prod_eq_iff)
  show ?thesis
    using n u a b by (simp add: empty_world_def)
qed

text \<open>
  Claim C8. The evaluation routes read the title store and never write it: after a
  single-metric or an all-metrics request, at the Express server and at the Lambda, every
  file reads as before the request. The Lambda's handler leaves the files as they are for
  every event but a \<open>POST\<close> to \<open>/video-title\<close>, and a path of an evaluation
  route is no path of that route.
\<close>

theorem evaluation_never_writes_store:
  "files (snd (evaluate_metric rt backend w body)) = files w
   \<and> files (snd (evaluate_all rt backend w body)) = files w
   \<and> (\<not> (startsWith (str_or (ev_path ev) ''/'') ''/video-title'' \<and>
          str_or (ev_httpMethod ev) (str_or (ev_http_method ev) ''GET'') = ''POST'') \<longrightarrow>
      files (snd (handler rt backend w ev)) = files w)
   \<and> (startsWith p ''/evaluate-metric'' \<or> startsWith p ''/evaluate-all'' \<longrightarrow>
      \<not> startsWith p ''/video-title'')"
  using evaluate_metric_files[of rt backend w body] evaluate_all_files[of rt backend w body]
    handler_files[of ev rt backend w] startsWith_routes[of p]
  by blast

text \<open>
  An all-metrics request at the Lambda and at the server: the backend is called, the
  files are unchanged. The route \<open>POST /api/video-title\<close>, for comparison, writes the
  stored file.
\<close>

theorem evaluation_never_writes_store_witness:
  "\<not> (startsWith (str_or (ev_path sample_event) ''/'') ''/video-title'' \<and>
       str_or (ev_httpMethod sample_event) (str_or (ev_http_method sample_event) ''GET'') = ''POST'')
   \<and> startsWith (str_or (ev_path sample_event) ''/'') ''/evaluate-all''
   \<and> files (snd (handler ref_runtime (replies ''{}'') empty_world sample_event)) = files empty_world
   \<and> gemini_calls (snd (handler ref_runtime (replies ''{}'') empty_world sample_event)) \<noteq> []
   \<and> files (snd (evaluate_all ref_runtime (replies ''{}'') empty_world sample_body)) = files empty_world
   \<and> files (snd (post_video_title ref_runtime empty_world
                    (Obj [(''url'', Str ''v1''), (''title'', Str ''My video'')]))) VIDEO_DB
       = Inr (''{\<newline>  \"v1\": \"My video\"\<newline>}'')"
proof -
  have r: "\<not> (startsWith (str_or (ev_path sample_event) ''/'') ''/video-title'' \<and>
       str_or (ev_httpMethod sample_event) (str_or (ev_http_method sample_event) ''GET'') = ''POST'')"
    by code_simp
  have s: "startsWith (str_or (ev_path sample_event) ''/'') ''/evaluate-all''"
    by code_simp
  have g: "gemini_calls (snd (handler ref_runtime (replies ''{}'') empty_world sample_event)) \<noteq> []"
    by code_simp
  have p: "files (snd (post_video_title ref_runtime empty_world
                    (Obj [(''url'', Str ''v1''), (''title'', Str ''My video'')]))) VIDEO_DB
       = Inr (''{\<newline>  \"v1\": \"My video\"\<newline>}'')"
    by code_simp
  show ?thesis
    using r s g p
      evaluation_never_writes_store[of ref_runtime "replies ''{}''" empty_world sample_body sample_event]
    by blast
qed

text \<open>
  Claim C10. When the reply of the backend is the JSON text of a falsy value, the parse
  succeeds and the check \<open>if (parsed)\<close> fails: both Express routes answer
  \<open>{ ok: true, raw }\<close> without a \<open>parsed\<close> field, which is also their answer to a
  reply that could not be parsed at all.
\<close>

theorem falsy_reply_is_unparsed:
  "(JSON_parse rt raw = Inr v \<and> \<not> ToBoolean rt v \<longrightarrow>
      respond rt raw = Inr (res_json 200 (Obj [(''ok'', Bool True), (''raw'', Str raw)])))
   \<and> (tryParseJSON rt raw = Inr Null \<longrightarrow>
      respond rt raw = Inr (res_json 200 (Obj [(''ok'', Bool True), (''raw'', Str raw)])))
   \<and> (gemini_calls (snd (evaluate_metric rt backend w body)) = gemini_calls w @ [prompt]
      \<and> backend prompt = Inr raw \<and> JSON_parse rt raw = Inr v \<and> \<not> ToBoolean rt v \<longrightarrow>
      fst (evaluate_metric rt backend w body) =
        res_json 200 (Obj [(''ok'', Bool True), (''raw'', Str raw)]))
   \<and> (gemini_calls (snd (evaluate_all rt backend w body)) = gemini_calls w @ [prompt]
      \<and> backend prompt = Inr raw \<and> JSON_parse rt raw = Inr v \<and> \<not> ToBoolean rt v \<longrightarrow>
      fst (evaluate_all rt backend w body) =
        res_json 200 (Obj [(''ok'', Bool True), (''raw'', Str raw)]))"
proof (intro conjI impI)
  assume "JSON_parse rt raw = Inr v \<and> \<not> ToBoolean rt v"
  then show "respond rt raw = Inr (res_json 200 (Obj [(''ok'', Bool True), (''raw'', Str raw)]))"
    using respond_unparsed[OF tryParseJSON_parsed] by blast
next
  assume "tryParseJSON rt raw = Inr Null"
  then show "respond rt raw = Inr (res_json 200 (Obj [(''ok'', Bool True), (''raw'', Str raw)]))"
    by (simp add: respond_unparsed)
next
  assume a: "gemini_calls (snd (evaluate_metric rt backend w body)) = gemini_calls w @ [prompt]
      \<and> backend prompt = Inr raw \<and> JSON_parse rt raw = Inr v \<and> \<not> ToBoolean rt v"
  then have "respond rt raw = Inr (res_json 200 (Obj [(''ok'', Bool True), (''raw'', Str raw)]))"
    using respond_unparsed[OF tryParseJSON_parsed] by blast
  then show "fst (evaluate_metric rt backend w body) =
        res_json 200 (Obj [(''ok'', Bool True), (''raw'', Str raw)])"
    using a evaluate_metric_reply[of rt backend w body prompt raw] by simp
next
  assume a: "gemini_calls (snd (evaluate_all rt backend w body)) = gemini_calls w @ [prompt]
      \<and> backend prompt = Inr raw \<and> JSON_parse rt raw = Inr v \<and> \<not> ToBoolean rt v"
  then have "respond rt raw = Inr (res_json 200 (Obj [(''ok'', Bool True), (''raw'', Str raw)]))"
    using respond_unparsed[OF tryParseJSON_parsed] by blast
  then show "fst (evaluate_all rt backend w body) =
        res_json 200 (Obj [(''ok'', Bool True), (''raw'', Str raw)])"
    using a evaluate_all_reply[of rt backend w body prompt raw] by simp
qed

text \<open>
  The texts \<open>false\<close>, \<open>0\<close>, \<open>null\<close> and \<open>""\<close> in the reference runtime, and the
  two routes with the reply \<open>false\<close>.
\<close>

theorem falsy_reply_is_unparsed_witness:
  "JSON_parse ref_runtime ''false'' = Inr (Bool False) \<and> \<not> ToBoolean ref_runtime (Bool False)
   \<and> JSON_parse ref_runtime ''0'' = Inr (Num 0) \<and> \<not> ToBoolean ref_runtime (Num 0)
   \<and> JSON_parse ref_runtime ''null'' = Inr Null \<and> \<not> ToBoolean ref_runtime Null
   \<and> JSON_parse ref_runtime ''\"\"'' = Inr (Str []) \<and> \<not> ToBoolean ref_runtime (Str [])
   \<and> respond ref_runtime ''0'' = Inr (res_json 200 (Obj [(''ok'', Bool True), (''raw'', Str ''0'')]))
   \<and> respond ref_runtime ''null'' = Inr (res_json 200 (Obj [(''ok'', Bool True), (''raw'', Str ''null'')]))
   \<and> respond ref_runtime ''\"\"'' = Inr (res_json 200 (Obj [(''ok'', Bool True), (''raw'', Str ''\"\"'')]))
   \<and> gemini_calls (snd (evaluate_all ref_runtime (replies ''false'') empty_world sample_body))
       = gemini_calls empty_world @ [sample_prompt METRICS]
   \<and> replies ''false'' (sample_prompt METRICS) = Inr ''false''
   \<and> fst (evaluate_all ref_runtime (replies ''false'') empty_world sample_body)
       = res_json 200 (Obj [(''ok'', Bool True), (''raw'', Str ''false'')])
   \<and> gemini_calls (snd (evaluate_metric ref_runtime (replies ''false'') empty_world sample_metric_body))
       = gemini_calls empty_world @ [sample_prompt [''Pacing and speed of narration'']]
   \<and> fst (evaluate_metric ref_runtime (replies ''false'') empty_world sample_metric_body)
       = res_json 200 (Obj [(''ok'', Bool True), (''raw'', Str ''false'')])"
proof -
  have p: "JSON_parse ref_runtime ''false'' = Inr (Bool False)"
    "JSON_parse ref_runtime ''0'' = Inr (Num 0)"
    "JSON_parse ref_runtime ''null'' = Inr Null"
    "JSON_parse ref_runtime ''\"\"'' = Inr (Str [])"
    by code_simp+
  have t: "\<not> ToBoolean ref_runtime (Bool False)" "\<not> ToBoolean ref_runtime (Num 0)"
    "\<not> ToBoolean ref_runtime Null" "\<not> ToBoolean ref_runtime (Str [])"
    by (simp_all add: ref_runtime_def)
  have ga: "gemini_calls (snd (evaluate_all ref_runtime (replies ''false'') empty_world sample_body))
       = gemini_calls empty_world @ [sample_prompt METRICS]"
    by code_simp
  have gm: "gemini_calls (snd (evaluate_metric ref_runtime (replies ''false'') empty_world sample_metric_body))
       = gemini_calls empty_world @ [sample_prompt [''Pacing and speed of narration'']]"
    by code_simp
  have r: "replies ''false'' (sample_prompt ms) = Inr ''false''" for ms
    by (simp add: replies_def)
  note f = falsy_reply_is_unparsed[of ref_runtime]
  show ?thesis
    using p t ga gm r
      f[of "''0''" "Num 0"] f[of "''null''" Null] f[of "''\"\"''" "Str []"]
      f[of "''false''" "Bool False" "replies ''false''" empty_world sample_metric_body
        "sample_prompt [''Pacing and speed of narration'']"]
      f[of "''false''" "Bool False" "replies ''false''" empty_world sample_body
        "sample_prompt METRICS"]
    by simp
qed

end
